theory Spec2Isabelle
  imports Complex_Main "HOL-Library.Multiset"
begin

section \<open>The minimizer base class of \<^verbatim>\<open>min.cpp\<close>\<close>

text \<open>
  The development embeds class \<^verbatim>\<open>Min\<close> (file \<^verbatim>\<open>src/min.cpp\<close>): the state of one
  process, the methods of the class as functions on that state, and the two collective
  reductions of the norm calculator over the list of all processes.

  Conventions of the embedding.
  \<^item> A C \<^verbatim>\<open>int\<close> or \<^verbatim>\<open>bigint\<close> is an \<^typ>\<open>int\<close>; the counts of the source never come
    near the machine bounds in the properties proved here, and overflow is not modelled.
  \<^item> A \<^verbatim>\<open>double\<close> is a \<^typ>\<open>real\<close>: sums, products, comparisons and \<^verbatim>\<open>fabs\<close> are
    the exact ones. Rounding and NaN are outside the model.
  \<^item> A buffer that \<^verbatim>\<open>Min\<close> allocates itself is a list; its length is the allocated
    number of slots and \<^verbatim>\<open>NULL\<close> is the empty list. An array owned by a collaborator
    (\<^verbatim>\<open>atom->f\<close>, \<^verbatim>\<open>output->next_dump\<close>, \<^verbatim>\<open>modify->compute\<close>, the alias \<^verbatim>\<open>fvec\<close>)
    is a total function of the index; its extent is the collaborator's business.
  \<^item> A pointer that the source only tests against \<^verbatim>\<open>NULL\<close> is a \<^typ>\<open>bool\<close>.
  \<^item> A call into a collaborator whose code is not part of the file is recorded, in order
    and with its integer arguments, in the field \<open>trace\<close>. What the collaborator
    returns is supplied by an environment (record \<open>env\<close>) that may inspect the whole
    state, the trace included. What the collaborator does to its own data is not modelled.
\<close>

subsection \<open>Collaborator calls\<close>

datatype timer_slot = COMM | MODIFY | NEIGHBOR | PAIR | BOND | KSPACE

datatype (plugins only: size) event =
    Screen_print string
  | Error_warning string
  | Modify_add_fix "string list"
  | Modify_delete_fix string
  | Modify_min_dof
  | Modify_find_compute string
  | Modify_setup_pre_force int
  | Modify_setup int
  | Modify_min_pre_exchange
  | Modify_min_pre_force int
  | Modify_min_post_force int
  | Modify_min_energy
  | Modify_addstep_compute_all int
  | Compute_matchstep nat int
  | Compute_scalar int
  | Init_style
  | Setup_style
  | Reset_vectors
  | Min_energy_force int
  | Atom_setup
  | Atom_sort
  | Domain_x2lamda int
  | Domain_lamda2x int
  | Domain_pbc
  | Domain_reset_box
  | Comm_setup
  | Comm_exchange
  | Comm_borders
  | Comm_forward_comm
  | Comm_reverse_comm
  | Neighbor_setup_bins
  | Neighbor_build
  | Neighbor_decide
  | Pair_compute int int
  | Pair_min_xf_get nat int
  | Bond_compute int int
  | Angle_compute int int
  | Dihedral_compute int int
  | Improper_compute int int
  | Kspace_setup
  | Kspace_compute int int
  | Output_setup int
  | Output_write int
  | Fix_minimize_reset_coords
  | Timer_stamp
  | Timer_stamp_slot timer_slot

subsection \<open>State\<close>

type_synonym vec3 = "real \<times> real \<times> real"

record atom_t =
  atom_nlocal :: int
  atom_nghost :: int
  atom_natoms :: int
  atom_f :: "nat \<Rightarrow> vec3"
  atom_torque :: "nat \<Rightarrow> vec3"
  atom_erforce :: "nat \<Rightarrow> real"
  atom_torque_flag :: int
  atom_erforce_flag :: int
  atom_molecular :: int
  atom_sortfreq :: int
  atom_nextsort :: int

record comm_t =
  comm_me :: int
  comm_nthreads :: int

record domain_t =
  domain_triclinic :: int
  domain_box_change :: int

record force_t =
  force_newton :: int
  force_newton_pair :: int
  force_pair :: bool
  force_bond :: bool
  force_angle :: bool
  force_dihedral :: bool
  force_improper :: bool
  force_kspace :: bool

record compute_t =
  peflag :: int
  peatomflag :: int
  pressflag :: int
  pressatomflag :: int

record modify_t =
  modify_ncompute :: int
  modify_compute :: "nat \<Rightarrow> compute_t"
  n_min_pre_exchange :: int
  n_min_pre_force :: int
  n_min_post_force :: int

record neighbor_t =
  neighbor_every :: int
  neighbor_delay :: int
  neighbor_dist_check :: int
  neighbor_style :: int
  neighbor_ncalls :: int

record update_t =
  update_ntimestep :: int
  update_nsteps :: int
  update_restrict_output :: int
  update_eflag_global :: int
  update_eflag_atom :: int
  update_vflag_global :: int
  update_vflag_atom :: int

record output_t =
  output_ndump :: int
  output_next_dump :: "nat \<Rightarrow> int"
  output_next_dump_any :: int
  output_restart_every :: int
  output_next_restart :: int
  output_next_thermo :: int
  thermo_normflag :: int

text \<open>
  The members of \<^verbatim>\<open>Min\<close> that the methods below read or write, followed by the
  collaborators reached through the pointers inherited from \<^verbatim>\<open>Pointers\<close>
  (\<open>lmp_atom\<close> for \<^verbatim>\<open>atom\<close>, and so on). The four
  lists of computes hold indices into \<^verbatim>\<open>modify->compute\<close>; their element counts
  (\<^verbatim>\<open>nelist_global\<close> and so on) are the lengths of the lists. A requestor is the
  identity of a \<^verbatim>\<open>Pair\<close> object.
\<close>

record lammps =
  searchflag :: int
  elist_global :: "nat list"
  elist_atom :: "nat list"
  vlist_global :: "nat list"
  vlist_atom :: "nat list"
  nextra_global :: int
  fextra :: "real list"
  nextra_atom :: int
  xextra_atom :: "(nat \<Rightarrow> real) list"
  fextra_atom :: "(nat \<Rightarrow> real) list"
  extra_peratom :: "int list"
  extra_nlen :: "int list"
  extra_max :: "real list"
  requestor :: "nat list"
  virial_style :: int
  torqueflag :: int
  erforceflag :: int
  triclinic :: int
  neigh_every :: int
  neigh_delay :: int
  neigh_dist_check :: int
  niter :: int
  neval :: int
  pe_compute :: int
  ndoftotal :: int
  eflag :: int
  vflag :: int
  ecurrent :: real
  einitial :: real
  efinal :: real
  fnorm2_init :: real
  fnorminf_init :: real
  fnorm2_final :: real
  fnorminf_final :: real
  stop_condition :: int
  stopstr :: "string option"
  nvec :: int
  fvec :: "nat \<Rightarrow> real"
  lmp_atom :: atom_t
  lmp_comm :: comm_t
  lmp_domain :: domain_t
  lmp_force :: force_t
  lmp_modify :: modify_t
  lmp_neighbor :: neighbor_t
  lmp_output :: output_t
  lmp_update :: update_t
  screen :: bool
  trace :: "event list"


text \<open>
  What the collaborators answer. Each answer may depend on the state at the moment of the
  call. \<open>modify_min_energy\<close> gives the energy and the values that \<^verbatim>\<open>modify->min_energy\<close>
  leaves in the slots of \<^verbatim>\<open>fextra\<close>. \<open>min_iterate\<close> is the \<^verbatim>\<open>iterate\<close> method of the
  concrete minimizer: it returns the stop condition and may change the state in any way.
  \<open>mpi_allreduce_sum\<close> and \<open>mpi_allreduce_max\<close> give, for the value a process
  contributes, the value the reduction hands back to it. The \<open>uninit\<close> fields are the
  contents of memory that was allocated and not yet written.
\<close>

record env =
  neighbor_decide :: "lammps \<Rightarrow> int"
  modify_min_dof :: "lammps \<Rightarrow> int"
  modify_find_compute :: "string \<Rightarrow> lammps \<Rightarrow> int"
  compute_scalar :: "int \<Rightarrow> lammps \<Rightarrow> real"
  compute_matchstep :: "nat \<Rightarrow> int \<Rightarrow> lammps \<Rightarrow> int"
  modify_min_energy :: "lammps \<Rightarrow> real \<times> (nat \<Rightarrow> real)"
  min_iterate :: "int \<Rightarrow> lammps \<Rightarrow> int \<times> lammps"
  mpi_allreduce_sum :: "lammps \<Rightarrow> real \<Rightarrow> real"
  mpi_allreduce_max :: "lammps \<Rightarrow> real \<Rightarrow> real"
  mpi_allreduce_sum_bigint :: "lammps \<Rightarrow> int \<Rightarrow> int"
  uninit_double :: real
  uninit_int :: int
  uninit_ptr :: "nat \<Rightarrow> real"
  uninit_pair :: nat

definition call :: "event \<Rightarrow> lammps \<Rightarrow> lammps" where
  "call e w = w\<lparr>trace := trace w @ [e]\<rparr>"

definition calls :: "event list \<Rightarrow> lammps \<Rightarrow> lammps" where
  "calls es w = fold call es w"

text \<open>
  \<^verbatim>\<open>error->all\<close> ends the run. A method that can reach it returns \<open>Inl\<close> with the
  message and the state at that moment, and \<open>Inr\<close> with the final state otherwise.
\<close>

type_synonym 'a outcome = "(string \<times> lammps) + 'a"

subsection \<open>The norm calculator\<close>

text \<open>Lines 704--713 of \<^verbatim>\<open>fnorm_sqr\<close>: the contribution of one process.\<close>

definition fnorm_sqr_local :: "lammps \<Rightarrow> real" where
  "fnorm_sqr_local w =
     (let local_norm2_sqr = fold (\<lambda>i s. s + fvec w i * fvec w i) [0..<nat (nvec w)] 0
      in if nextra_atom w \<noteq> 0
         then fold (\<lambda>m s. let fatom = fextra_atom w ! m; n = extra_nlen w ! m
                          in fold (\<lambda>i s. s + fatom i * fatom i) [0..<nat n] s)
                [0..<nat (nextra_atom w)] local_norm2_sqr
         else local_norm2_sqr)"

text \<open>
  \<^verbatim>\<open>fnorm_sqr\<close> on one process; \<open>allreduce\<close> is what \<^verbatim>\<open>MPI_Allreduce\<close> with
  \<^verbatim>\<open>MPI_SUM\<close> returns for the value sent.
\<close>

definition fnorm_sqr :: "(real \<Rightarrow> real) \<Rightarrow> lammps \<Rightarrow> real" where
  "fnorm_sqr allreduce w =
     (let norm2_sqr = allreduce (fnorm_sqr_local w)
      in if nextra_global w \<noteq> 0
         then fold (\<lambda>i s. s + fextra w ! i * fextra w ! i) [0..<nat (nextra_global w)] norm2_sqr
         else norm2_sqr)"


definition MPI_Allreduce_MAX :: "real list \<Rightarrow> real" where
  "MPI_Allreduce_MAX sendbufs = fold max (tl sendbufs) (hd sendbufs)"


text \<open>The macro \<^verbatim>\<open>MAX(A,B)\<close> of line 51.\<close>

definition MAX_macro :: "real \<Rightarrow> real \<Rightarrow> real" where
  "MAX_macro A B = (if A > B then A else B)"

text \<open>Lines 734--744 of \<^verbatim>\<open>fnorm_inf\<close>.\<close>

definition fnorm_inf_local :: "lammps \<Rightarrow> real" where
  "fnorm_inf_local w =
     (let local_norm_inf = fold (\<lambda>i s. MAX_macro \<bar>fvec w i\<bar> s) [0..<nat (nvec w)] 0
      in if nextra_atom w \<noteq> 0
         then fold (\<lambda>m s. let fatom = fextra_atom w ! m; n = extra_nlen w ! m
                          in fold (\<lambda>i s. MAX_macro \<bar>fatom i\<bar> s) [0..<nat n] s)
                [0..<nat (nextra_atom w)] local_norm_inf
         else local_norm_inf)"

definition fnorm_inf :: "(real \<Rightarrow> real) \<Rightarrow> lammps \<Rightarrow> real" where
  "fnorm_inf allreduce w =
     (let norm_inf = allreduce (fnorm_inf_local w)
      in if nextra_global w \<noteq> 0
         then fold (\<lambda>i s. MAX_macro \<bar>fextra w ! i\<bar> s) [0..<nat (nextra_global w)] norm_inf
         else norm_inf)"

definition fnorm_inf_world :: "lammps list \<Rightarrow> real list" where
  "fnorm_inf_world ws =
     map (\<lambda>r. fnorm_inf (\<lambda>local. MPI_Allreduce_MAX ((map fnorm_inf_local ws)[r := local])) (ws ! r))
         [0..<length ws]"

text \<open>
  The force components a process contributes before the reduction (the first \<^verbatim>\<open>nvec\<close>
  entries of \<^verbatim>\<open>fvec\<close>, then \<^verbatim>\<open>extra_nlen[m]\<close> entries of each \<^verbatim>\<open>fextra_atom[m]\<close>), and the
  global ones it folds in afterwards.
\<close>

definition local_components :: "lammps \<Rightarrow> real list" where
  "local_components w =
     map (fvec w) [0..<nat (nvec w)] @
     concat (map (\<lambda>m. map (fextra_atom w ! m) [0..<nat (extra_nlen w ! m)])
                 [0..<nat (nextra_atom w)])"

definition global_components :: "lammps \<Rightarrow> real list" where
  "global_components w = map (\<lambda>i. fextra w ! i) [0..<nat (nextra_global w)]"




subsection \<open>Clearing the forces\<close>

text \<open>
  \<^verbatim>\<open>force_clear\<close>, lines 520--552. The three assignments of a loop body write one entry of
  type \<^verbatim>\<open>double[3]\<close>.
\<close>

definition force_clear :: "lammps \<Rightarrow> lammps" where
  "force_clear w =
     (let nall = (if force_newton (lmp_force w) \<noteq> 0
                  then atom_nlocal (lmp_atom w) + atom_nghost (lmp_atom w)
                  else atom_nlocal (lmp_atom w));
          ntot = nall * comm_nthreads (lmp_comm w);
          w = w\<lparr>lmp_atom := (lmp_atom w)
                 \<lparr>atom_f := fold (\<lambda>i f. f(i := (0, 0, 0))) [0..<nat ntot] (atom_f (lmp_atom w))\<rparr>\<rparr>;
          w = (if torqueflag w \<noteq> 0
               then w\<lparr>lmp_atom := (lmp_atom w)
                      \<lparr>atom_torque :=
                         fold (\<lambda>i t. t(i := (0, 0, 0))) [0..<nat nall] (atom_torque (lmp_atom w))\<rparr>\<rparr>
               else w);
          w = (if erforceflag w \<noteq> 0
               then w\<lparr>lmp_atom := (lmp_atom w)
                      \<lparr>atom_erforce :=
                         fold (\<lambda>i e. e(i := 0)) [0..<nat nall] (atom_erforce (lmp_atom w))\<rparr>\<rparr>
               else w)
      in w)"

text \<open>The value of the local variable \<^verbatim>\<open>nall\<close> of \<^verbatim>\<open>force_clear\<close>.\<close>

definition force_clear_nall :: "lammps \<Rightarrow> int" where
  "force_clear_nall w =
     (if force_newton (lmp_force w) \<noteq> 0
      then atom_nlocal (lmp_atom w) + atom_nghost (lmp_atom w)
      else atom_nlocal (lmp_atom w))"

subsection \<open>The registry of per-atom extra degrees of freedom\<close>

text \<open>
  \<^verbatim>\<open>memory->srealloc\<close> and \<^verbatim>\<open>memory->grow\<close> resize a buffer to \<open>n\<close> slots: the slots
  that stay keep their contents and new slots hold whatever the memory holds.
\<close>

definition srealloc :: "'a \<Rightarrow> 'a list \<Rightarrow> int \<Rightarrow> 'a list" where
  "srealloc junk xs n = take (nat n) xs @ replicate (nat n - length xs) junk"

text \<open>\<^verbatim>\<open>request\<close>, lines 561--579; the result is the returned flag and the new state.\<close>

definition request :: "env \<Rightarrow> nat \<Rightarrow> int \<Rightarrow> real \<Rightarrow> lammps \<Rightarrow> int \<times> lammps" where
  "request E pair peratom maxvalue w =
     (let n = nextra_atom w + 1;
          w = w\<lparr>xextra_atom := srealloc (uninit_ptr E) (xextra_atom w) n\<rparr>;
          w = w\<lparr>fextra_atom := srealloc (uninit_ptr E) (fextra_atom w) n\<rparr>;
          w = w\<lparr>extra_peratom := srealloc (uninit_int E) (extra_peratom w) n\<rparr>;
          w = w\<lparr>extra_nlen := srealloc (uninit_int E) (extra_nlen w) n\<rparr>;
          w = w\<lparr>extra_max := srealloc (uninit_double E) (extra_max w) n\<rparr>;
          w = w\<lparr>requestor := srealloc (uninit_pair E) (requestor w) n\<rparr>;
          w = w\<lparr>requestor := (requestor w)[nat (nextra_atom w) := pair]\<rparr>;
          w = w\<lparr>extra_peratom := (extra_peratom w)[nat (nextra_atom w) := peratom]\<rparr>;
          w = w\<lparr>extra_max := (extra_max w)[nat (nextra_atom w) := maxvalue]\<rparr>;
          w = w\<lparr>nextra_atom := nextra_atom w + 1\<rparr>
      in (nextra_atom w - 1, w))"

text \<open>
  The state in which the registry is used: \<^verbatim>\<open>nextra_atom\<close> slots are allocated in each of
  the buffers. A write to slot \<^verbatim>\<open>nextra_atom\<close> of a buffer of other size has no meaning in
  C.
\<close>

definition registry_ok :: "lammps \<Rightarrow> bool" where
  "registry_ok w \<longleftrightarrow>
     0 \<le> nextra_atom w \<and>
     length (requestor w) = nat (nextra_atom w) \<and>
     length (extra_peratom w) = nat (nextra_atom w) \<and>
     length (extra_nlen w) = nat (nextra_atom w) \<and>
     length (extra_max w) = nat (nextra_atom w) \<and>
     length (xextra_atom w) = nat (nextra_atom w) \<and>
     length (fextra_atom w) = nat (nextra_atom w)"

text \<open>The slot count and the six buffers of the registry.\<close>

definition registry ::
  "lammps \<Rightarrow> int \<times> nat list \<times> int list \<times> int list \<times> real list \<times> (nat \<Rightarrow> real) list \<times> (nat \<Rightarrow> real) list" where
  "registry w = (nextra_atom w, requestor w, extra_peratom w, extra_nlen w, extra_max w,
                 xextra_atom w, fextra_atom w)"

subsection \<open>The energy and virial flags\<close>

text \<open>
  \<^verbatim>\<open>ev_setup\<close>, lines 607--642. The first loop of the source only counts, to size the four
  arrays; the second loop fills them in the order of \<^verbatim>\<open>modify->compute\<close>.
\<close>

definition ev_setup :: "lammps \<Rightarrow> lammps" where
  "ev_setup w =
     (let w = w\<lparr>elist_global := [], elist_atom := [], vlist_global := [], vlist_atom := []\<rparr>
      in fold (\<lambda>i w.
                 let c = modify_compute (lmp_modify w) i;
                     w = (if peflag c \<noteq> 0 then w\<lparr>elist_global := elist_global w @ [i]\<rparr> else w);
                     w = (if peatomflag c \<noteq> 0 then w\<lparr>elist_atom := elist_atom w @ [i]\<rparr> else w);
                     w = (if pressflag c \<noteq> 0 then w\<lparr>vlist_global := vlist_global w @ [i]\<rparr> else w);
                     w = (if pressatomflag c \<noteq> 0 then w\<lparr>vlist_atom := vlist_atom w @ [i]\<rparr> else w)
                 in w)
           [0..<nat (modify_ncompute (lmp_modify w))] w)"

text \<open>
  One loop of \<^verbatim>\<open>ev_set\<close> over a list of computes: \<^verbatim>\<open>matchstep\<close> is called on each, and
  \<open>flag\<close> becomes 1 as soon as one call returns nonzero. \<open>matchstep_answers\<close> lists what
  the calls of the loop return.
\<close>

fun matchstep_loop :: "env \<Rightarrow> int \<Rightarrow> nat list \<Rightarrow> int \<Rightarrow> lammps \<Rightarrow> int \<times> lammps" where
  "matchstep_loop E ntimestep [] flag w = (flag, w)"
| "matchstep_loop E ntimestep (c # cs) flag w =
     (let r = compute_matchstep E c ntimestep w;
          w = call (Compute_matchstep c ntimestep) w
      in matchstep_loop E ntimestep cs (if r \<noteq> 0 then 1 else flag) w)"

fun matchstep_answers :: "env \<Rightarrow> int \<Rightarrow> nat list \<Rightarrow> lammps \<Rightarrow> int list" where
  "matchstep_answers E ntimestep [] w = []"
| "matchstep_answers E ntimestep (c # cs) w =
     compute_matchstep E c ntimestep w #
     matchstep_answers E ntimestep cs (call (Compute_matchstep c ntimestep) w)"

text \<open>\<^verbatim>\<open>ev_set\<close>, lines 664--676: the energy flag.\<close>

definition ev_set_energy :: "env \<Rightarrow> int \<Rightarrow> lammps \<Rightarrow> lammps" where
  "ev_set_energy E ntimestep w =
     (let eflag_global = (1::int);
          w = snd (matchstep_loop E ntimestep (elist_global w) 0 w);
          (flag, w) = matchstep_loop E ntimestep (elist_atom w) 0 w;
          eflag_atom = (if flag \<noteq> 0 then 2 else 0);
          w = (if eflag_global \<noteq> 0
               then w\<lparr>lmp_update := (lmp_update w)
                      \<lparr>update_eflag_global := update_ntimestep (lmp_update w)\<rparr>\<rparr>
               else w);
          w = (if eflag_atom \<noteq> 0
               then w\<lparr>lmp_update := (lmp_update w)
                      \<lparr>update_eflag_atom := update_ntimestep (lmp_update w)\<rparr>\<rparr>
               else w)
      in w\<lparr>eflag := eflag_global + eflag_atom\<rparr>)"

text \<open>\<^verbatim>\<open>ev_set\<close>, lines 678--692: the virial flag.\<close>

definition ev_set_virial :: "env \<Rightarrow> int \<Rightarrow> lammps \<Rightarrow> lammps" where
  "ev_set_virial E ntimestep w =
     (let (flag, w) = matchstep_loop E ntimestep (vlist_global w) 0 w;
          vflag_global = (if flag \<noteq> 0 then virial_style w else 0);
          (flag, w) = matchstep_loop E ntimestep (vlist_atom w) 0 w;
          vflag_atom = (if flag \<noteq> 0 then 4 else 0);
          w = (if vflag_global \<noteq> 0
               then w\<lparr>lmp_update := (lmp_update w)
                      \<lparr>update_vflag_global := update_ntimestep (lmp_update w)\<rparr>\<rparr>
               else w);
          w = (if vflag_atom \<noteq> 0
               then w\<lparr>lmp_update := (lmp_update w)
                      \<lparr>update_vflag_atom := update_ntimestep (lmp_update w)\<rparr>\<rparr>
               else w)
      in w\<lparr>vflag := vflag_global + vflag_atom\<rparr>)"

definition ev_set :: "env \<Rightarrow> int \<Rightarrow> lammps \<Rightarrow> lammps" where
  "ev_set E ntimestep w = ev_set_virial E ntimestep (ev_set_energy E ntimestep w)"

text \<open>
  What the computes of the two per-atom lists answer during \<open>ev_set E ntimestep w\<close>, each
  list at the moment its loop starts.
\<close>

definition eatom_answers :: "env \<Rightarrow> int \<Rightarrow> lammps \<Rightarrow> int list" where
  "eatom_answers E ntimestep w =
     matchstep_answers E ntimestep (elist_atom w)
       (snd (matchstep_loop E ntimestep (elist_global w) 0 w))"

definition vatom_answers :: "env \<Rightarrow> int \<Rightarrow> lammps \<Rightarrow> int list" where
  "vatom_answers E ntimestep w =
     (let w = ev_set_energy E ntimestep w
      in matchstep_answers E ntimestep (vlist_atom w)
           (snd (matchstep_loop E ntimestep (vlist_global w) 0 w)))"

text \<open>The same for the list of the global virial.\<close>

definition vglobal_answers :: "env \<Rightarrow> int \<Rightarrow> lammps \<Rightarrow> int list" where
  "vglobal_answers E ntimestep w =
     (let w = ev_set_energy E ntimestep w
      in matchstep_answers E ntimestep (vlist_global w) w)"

subsection \<open>Life cycle: init and cleanup\<close>

text \<open>Lines 112--126 of \<^verbatim>\<open>init\<close>: the extra degrees of freedom are cleared.\<close>

definition init_extra_dof :: "lammps \<Rightarrow> lammps" where
  "init_extra_dof w =
     (let w = w\<lparr>nextra_global := 0, fextra := []\<rparr>
      in w\<lparr>nextra_atom := 0, xextra_atom := [], fextra_atom := [],
            extra_peratom := [], extra_nlen := [], extra_max := [], requestor := []\<rparr>)"

text \<open>Lines 132--149: the virial style, the lists of computes, the flags of the arrays to clear.\<close>

definition init_flags :: "lammps \<Rightarrow> lammps" where
  "init_flags w =
     (let w = (if force_newton_pair (lmp_force w) \<noteq> 0
               then w\<lparr>virial_style := 2\<rparr> else w\<lparr>virial_style := 1\<rparr>);
          w = ev_setup w;
          w = w\<lparr>torqueflag := 0\<rparr>;
          w = (if atom_torque_flag (lmp_atom w) \<noteq> 0 then w\<lparr>torqueflag := 1\<rparr> else w);
          w = w\<lparr>erforceflag := 0\<rparr>;
          w = (if atom_erforce_flag (lmp_atom w) \<noteq> 0 then w\<lparr>erforceflag := 1\<rparr> else w)
      in w\<lparr>triclinic := domain_triclinic (lmp_domain w)\<rparr>)"

text \<open>Lines 153--164: the reneighboring criteria.\<close>

definition init_reneighboring :: "lammps \<Rightarrow> lammps" where
  "init_reneighboring w =
     (let w = w\<lparr>neigh_every := neighbor_every (lmp_neighbor w)\<rparr>;
          w = w\<lparr>neigh_delay := neighbor_delay (lmp_neighbor w)\<rparr>;
          w = w\<lparr>neigh_dist_check := neighbor_dist_check (lmp_neighbor w)\<rparr>;
          w = (if neigh_every w \<noteq> 1 \<or> neigh_delay w \<noteq> 0 \<or> neigh_dist_check w \<noteq> 1
               then (if comm_me (lmp_comm w) = 0
                     then call (Error_warning ''Resetting reneighboring criteria during minimization'') w
                     else w)
               else w);
          w = w\<lparr>lmp_neighbor := (lmp_neighbor w)\<lparr>neighbor_every := 1\<rparr>\<rparr>;
          w = w\<lparr>lmp_neighbor := (lmp_neighbor w)\<lparr>neighbor_delay := 0\<rparr>\<rparr>
      in w\<lparr>lmp_neighbor := (lmp_neighbor w)\<lparr>neighbor_dist_check := 1\<rparr>\<rparr>)"

text \<open>
  \<^verbatim>\<open>init\<close>, lines 95--171. The pointer \<^verbatim>\<open>fix_minimize\<close> to the fix just created is not
  kept: the fix is a collaborator and appears in the trace only.
\<close>

definition init :: "lammps \<Rightarrow> lammps" where
  "init w =
     (let w = call (Modify_add_fix [''MINIMIZE'', ''all'', ''MINIMIZE'']) w;
          w = init_extra_dof w;
          w = init_flags w;
          w = init_reneighboring w;
          w = w\<lparr>niter := 0, neval := 0\<rparr>
      in call Init_style w)"

text \<open>\<^verbatim>\<open>cleanup\<close>, lines 387--404.\<close>

definition cleanup :: "env \<Rightarrow> lammps \<Rightarrow> lammps" where
  "cleanup E w =
     (let w = w\<lparr>efinal := ecurrent w\<rparr>;
          w = w\<lparr>fnorm2_final := sqrt (fnorm_sqr (mpi_allreduce_sum E w) w)\<rparr>;
          w = w\<lparr>fnorminf_final := fnorm_inf (mpi_allreduce_max E w) w\<rparr>;
          w = w\<lparr>lmp_neighbor := (lmp_neighbor w)\<lparr>neighbor_every := neigh_every w\<rparr>\<rparr>;
          w = w\<lparr>lmp_neighbor := (lmp_neighbor w)\<lparr>neighbor_delay := neigh_delay w\<rparr>\<rparr>;
          w = w\<lparr>lmp_neighbor := (lmp_neighbor w)\<lparr>neighbor_dist_check := neigh_dist_check w\<rparr>\<rparr>
      in call (Modify_delete_fix ''MINIMIZE'') w)"

text \<open>The three cadence settings of the neighbor list, and the snapshot \<^verbatim>\<open>Min\<close> keeps.\<close>

definition cadence :: "lammps \<Rightarrow> int \<times> int \<times> int" where
  "cadence w = (neighbor_every (lmp_neighbor w), neighbor_delay (lmp_neighbor w),
                neighbor_dist_check (lmp_neighbor w))"

definition snapshot :: "lammps \<Rightarrow> int \<times> int \<times> int" where
  "snapshot w = (neigh_every w, neigh_delay w, neigh_dist_check w)"

subsection \<open>The evaluation pipeline\<close>

text \<open>The rebuild branch of \<^verbatim>\<open>energy_force\<close>, lines 426--446.\<close>

definition reneighbor :: "lammps \<Rightarrow> lammps" where
  "reneighbor w =
     (let w = (if n_min_pre_exchange (lmp_modify w) \<noteq> 0
               then calls [Timer_stamp, Modify_min_pre_exchange, Timer_stamp_slot MODIFY] w
               else w);
          w = (if triclinic w \<noteq> 0 then call (Domain_x2lamda (atom_nlocal (lmp_atom w))) w else w);
          w = call Domain_pbc w;
          w = (if domain_box_change (lmp_domain w) \<noteq> 0
               then (let w = calls [Domain_reset_box, Comm_setup] w
                     in if neighbor_style (lmp_neighbor w) \<noteq> 0 then call Neighbor_setup_bins w else w)
               else w);
          w = calls [Timer_stamp, Comm_exchange] w;
          w = (if atom_sortfreq (lmp_atom w) > 0 \<and>
                  update_ntimestep (lmp_update w) \<ge> atom_nextsort (lmp_atom w)
               then call Atom_sort w else w);
          w = call Comm_borders w;
          w = (if triclinic w \<noteq> 0
               then call (Domain_lamda2x (atom_nlocal (lmp_atom w) + atom_nghost (lmp_atom w))) w
               else w)
      in calls [Timer_stamp_slot COMM, Neighbor_build, Timer_stamp_slot NEIGHBOR] w)"

text \<open>The bonded terms, as both \<^verbatim>\<open>setup\<close> and \<^verbatim>\<open>energy_force\<close> call them.\<close>

definition bonded :: "lammps \<Rightarrow> lammps" where
  "bonded w =
     (let w = (if force_bond (lmp_force w) then call (Bond_compute (eflag w) (vflag w)) w else w);
          w = (if force_angle (lmp_force w) then call (Angle_compute (eflag w) (vflag w)) w else w);
          w = (if force_dihedral (lmp_force w) then call (Dihedral_compute (eflag w) (vflag w)) w else w);
          w = (if force_improper (lmp_force w) then call (Improper_compute (eflag w) (vflag w)) w else w)
      in w)"

text \<open>Lines 452--480 of \<^verbatim>\<open>energy_force\<close>.\<close>

definition force_contributions :: "lammps \<Rightarrow> lammps" where
  "force_contributions w =
     (let w = call Timer_stamp w;
          w = (if n_min_pre_force (lmp_modify w) \<noteq> 0
               then calls [Modify_min_pre_force (vflag w), Timer_stamp_slot MODIFY] w else w);
          w = (if force_pair (lmp_force w)
               then calls [Pair_compute (eflag w) (vflag w), Timer_stamp_slot PAIR] w else w);
          w = (if atom_molecular (lmp_atom w) \<noteq> 0 then call (Timer_stamp_slot BOND) (bonded w) else w);
          w = (if force_kspace (lmp_force w)
               then calls [Kspace_compute (eflag w) (vflag w), Timer_stamp_slot KSPACE] w else w);
          w = (if force_newton (lmp_force w) \<noteq> 0
               then calls [Comm_reverse_comm, Timer_stamp_slot COMM] w else w)
      in w)"

text \<open>The loop over the requestors (lines 261--263, 484--486).\<close>

definition min_xf_get_all :: "lammps \<Rightarrow> lammps" where
  "min_xf_get_all w =
     (if nextra_atom w \<noteq> 0
      then calls (map (\<lambda>m. Pair_min_xf_get (requestor w ! m) (int m)) [0..<nat (nextra_atom w)]) w
      else w)"

text \<open>
  The potential energy (lines 270--272, 499--501). A division by \<^verbatim>\<open>atom->natoms = 0\<close> gives
  no finite \<^verbatim>\<open>double\<close>; that case is outside the model.
\<close>

definition potential_energy :: "env \<Rightarrow> lammps \<Rightarrow> real \<times> lammps" where
  "potential_energy E w =
     (let energy = compute_scalar E (pe_compute w) w;
          w = call (Compute_scalar (pe_compute w)) w;
          (energy, w) =
             (if nextra_global w \<noteq> 0
              then (let (e, v) = modify_min_energy E w
                    in (energy + e,
                        call Modify_min_energy (w\<lparr>fextra := map v [0..<length (fextra w)]\<rparr>)))
              else (energy, w));
          energy = (if thermo_normflag (lmp_output w) \<noteq> 0
                    then energy / real_of_int (atom_natoms (lmp_atom w)) else energy)
      in (energy, w))"

text \<open>
  Lines 421--494 of \<^verbatim>\<open>energy_force\<close>, for the value \<open>nflag\<close> that \<^verbatim>\<open>neighbor->decide\<close>
  returned: communication or rebuild, the flags, the forces.
\<close>

definition compute_forces :: "env \<Rightarrow> int \<Rightarrow> lammps \<Rightarrow> lammps" where
  "compute_forces E nflag w =
     (let w = (if nflag = 0
               then calls [Timer_stamp, Comm_forward_comm, Timer_stamp_slot COMM] w
               else reneighbor w);
          w = ev_set E (update_ntimestep (lmp_update w)) w;
          w = force_clear w;
          w = force_contributions w;
          w = min_xf_get_all w
      in if n_min_post_force (lmp_modify w) \<noteq> 0
         then calls [Timer_stamp, Modify_min_post_force (vflag w), Timer_stamp_slot MODIFY] w
         else w)"

text \<open>Lines 421--501: the forces, then the energy.\<close>

definition evaluate :: "env \<Rightarrow> int \<Rightarrow> lammps \<Rightarrow> real \<times> lammps" where
  "evaluate E nflag w = potential_energy E (compute_forces E nflag w)"

text \<open>
  \<^verbatim>\<open>energy_force\<close>, lines 414--513. The entry of the method is recorded in the trace with
  its argument, so that a caller's trace shows which evaluation it asked for.
\<close>

definition energy_force :: "env \<Rightarrow> int \<Rightarrow> lammps \<Rightarrow> real \<times> lammps" where
  "energy_force E resetflag w =
     (let w = call (Min_energy_force resetflag) w;
          nflag = neighbor_decide E w;
          w = call Neighbor_decide w;
          (energy, w) = evaluate E nflag w;
          w = (if nflag \<noteq> 0
               then (let w = (if resetflag \<noteq> 0 then call Fix_minimize_reset_coords w else w)
                     in call Reset_vectors w)
               else w)
      in (energy, w))"

text \<open>
  What the two collaborators that make up the energy answer during
  \<open>energy_force E resetflag w\<close>: \<^verbatim>\<open>pe_compute->compute_scalar\<close>, and \<^verbatim>\<open>modify->min_energy\<close>
  (0 when it is not called).
\<close>

definition energy_answers :: "env \<Rightarrow> int \<Rightarrow> lammps \<Rightarrow> real \<times> real" where
  "energy_answers E resetflag w =
     (let w = call (Min_energy_force resetflag) w;
          nflag = neighbor_decide E w;
          w = compute_forces E nflag (call Neighbor_decide w)
      in (compute_scalar E (pe_compute w) w,
          if nextra_global w \<noteq> 0
          then fst (modify_min_energy E (call (Compute_scalar (pe_compute w)) w)) else 0))"

subsection \<open>Life cycle: setup and run\<close>

text \<open>Lines 179--185 of \<^verbatim>\<open>setup\<close>: the global extra degrees of freedom.\<close>

definition setup_dof :: "env \<Rightarrow> lammps \<Rightarrow> lammps" where
  "setup_dof E w =
     (let w = (if comm_me (lmp_comm w) = 0 \<and> screen w
               then call (Screen_print (''Setting up minimization ...'' @ [CHR 0x0A])) w else w);
          n = modify_min_dof E w;
          w = call Modify_min_dof w;
          w = w\<lparr>nextra_global := n\<rparr>
      in if nextra_global w \<noteq> 0
         then w\<lparr>fextra := replicate (nat (nextra_global w)) (uninit_double E)\<rparr> else w)"

text \<open>Lines 203--207: the total number of degrees of freedom.\<close>

definition setup_ndoftotal :: "env \<Rightarrow> lammps \<Rightarrow> lammps" where
  "setup_ndoftotal E w =
     (let ndofme = fold (\<lambda>m n. n + extra_peratom w ! m * atom_nlocal (lmp_atom w))
                     [0..<nat (nextra_atom w)] (3 * atom_nlocal (lmp_atom w));
          w = w\<lparr>ndoftotal := mpi_allreduce_sum_bigint E w ndofme\<rparr>
      in w\<lparr>ndoftotal := ndoftotal w + nextra_global w\<rparr>)"

text \<open>Lines 213--224: domain, communication and neighbor lists.\<close>

definition setup_neighbor :: "lammps \<Rightarrow> lammps" where
  "setup_neighbor w =
     (let w = call Atom_setup w;
          w = (if triclinic w \<noteq> 0 then call (Domain_x2lamda (atom_nlocal (lmp_atom w))) w else w);
          w = calls [Domain_pbc, Domain_reset_box, Comm_setup] w;
          w = (if neighbor_style (lmp_neighbor w) \<noteq> 0 then call Neighbor_setup_bins w else w);
          w = call Comm_exchange w;
          w = (if atom_sortfreq (lmp_atom w) > 0 then call Atom_sort w else w);
          w = call Comm_borders w;
          w = (if triclinic w \<noteq> 0
               then call (Domain_lamda2x (atom_nlocal (lmp_atom w) + atom_nghost (lmp_atom w))) w
               else w);
          w = call Neighbor_build w
      in w\<lparr>lmp_neighbor := (lmp_neighbor w)\<lparr>neighbor_ncalls := 0\<rparr>\<rparr>)"

text \<open>Lines 235--276: the first evaluation of the forces and the initial statistics.\<close>

definition setup_forces :: "env \<Rightarrow> lammps \<Rightarrow> lammps" where
  "setup_forces E w =
     (let w = call Reset_vectors w;
          w = ev_set E (update_ntimestep (lmp_update w)) w;
          w = force_clear w;
          w = call (Modify_setup_pre_force (vflag w)) w;
          w = (if force_pair (lmp_force w) then call (Pair_compute (eflag w) (vflag w)) w else w);
          w = (if atom_molecular (lmp_atom w) \<noteq> 0 then bonded w else w);
          w = (if force_kspace (lmp_force w)
               then calls [Kspace_setup, Kspace_compute (eflag w) (vflag w)] w else w);
          w = (if force_newton (lmp_force w) \<noteq> 0 then call Comm_reverse_comm w else w);
          w = min_xf_get_all w;
          w = calls [Modify_setup (vflag w), Output_setup 1] w;
          (energy, w) = potential_energy E w;
          w = w\<lparr>ecurrent := energy\<rparr>;
          w = w\<lparr>einitial := ecurrent w\<rparr>;
          w = w\<lparr>fnorm2_init := sqrt (fnorm_sqr (mpi_allreduce_sum E w) w)\<rparr>
      in w\<lparr>fnorminf_init := fnorm_inf (mpi_allreduce_max E w) w\<rparr>)"

text \<open>
  \<^verbatim>\<open>setup\<close>, lines 177--277 (\<open>setup\<close> is a keyword of the theory language, hence the
  prefix).
\<close>

definition Min_setup :: "env \<Rightarrow> lammps \<Rightarrow> lammps outcome" where
  "Min_setup E w =
     (let w = setup_dof E w;
          cid = modify_find_compute E ''thermo_pe'' w;
          w = call (Modify_find_compute ''thermo_pe'') w
      in if cid < 0 then Inl (''Minimization could not find thermo_pe compute'', w)
         else (let w = w\<lparr>pe_compute := cid\<rparr>;
                   w = call Setup_style w;
                   w = setup_ndoftotal E w;
                   w = setup_neighbor w
               in if nextra_global w \<noteq> 0 \<and> searchflag w = 0
                  then Inl (''Cannot use a damped dynamics min style with fix box/relax'', w)
                  else if nextra_atom w \<noteq> 0 \<and> searchflag w = 0
                  then Inl (''Cannot use a damped dynamics min style with per-atom DOF'', w)
                  else Inr (setup_forces E w)))"

text \<open>
  \<^verbatim>\<open>stopstrings\<close>, lines 760--773. An index outside the table reads memory that is not the
  table's; the result is then \<open>None\<close>.
\<close>

definition stopstrings :: "int \<Rightarrow> string option" where
  "stopstrings n =
     (let strings = [''max iterations'', ''max force evaluations'', ''energy tolerance'',
                     ''force tolerance'', ''search direction is not downhill'',
                     ''linesearch alpha is zero'', ''forces are zero'',
                     ''quadratic factors are zero'', ''trust region too small'',
                     ''HFTN minimizer error'']
      in if 0 \<le> n \<and> n < 10 then Some (strings ! nat n) else None)"

text \<open>Lines 371--377 of \<^verbatim>\<open>run\<close>: the next due steps of the output.\<close>

definition force_output_now :: "lammps \<Rightarrow> lammps" where
  "force_output_now w =
     (let w = (if update_restrict_output (lmp_update w) = 0
               then (let w = w\<lparr>lmp_output := (lmp_output w)
                                \<lparr>output_next_dump :=
                                   fold (\<lambda>idump nd. nd(idump := update_ntimestep (lmp_update w)))
                                     [0..<nat (output_ndump (lmp_output w))]
                                     (output_next_dump (lmp_output w))\<rparr>\<rparr>;
                         w = w\<lparr>lmp_output := (lmp_output w)
                                \<lparr>output_next_dump_any := update_ntimestep (lmp_update w)\<rparr>\<rparr>
                     in if output_restart_every (lmp_output w) \<noteq> 0
                        then w\<lparr>lmp_output := (lmp_output w)
                               \<lparr>output_next_restart := update_ntimestep (lmp_update w)\<rparr>\<rparr>
                        else w)
               else w)
      in w\<lparr>lmp_output := (lmp_output w)\<lparr>output_next_thermo := update_ntimestep (lmp_update w)\<rparr>\<rparr>)"

text \<open>\<^verbatim>\<open>run\<close>, lines 353--383.\<close>

definition run :: "env \<Rightarrow> int \<Rightarrow> lammps \<Rightarrow> lammps" where
  "run E n w =
     (let (code, w) = min_iterate E n w;
          w = w\<lparr>stop_condition := code\<rparr>;
          w = w\<lparr>stopstr := stopstrings (stop_condition w)\<rparr>
      in if stop_condition w \<noteq> 0
         then (let w = w\<lparr>lmp_update := (lmp_update w)\<lparr>update_nsteps := niter w\<rparr>\<rparr>;
                   w = force_output_now w;
                   w = call (Modify_addstep_compute_all (update_ntimestep (lmp_update w))) w;
                   (energy, w) = energy_force E 0 w;
                   w = w\<lparr>ecurrent := energy\<rparr>
               in call (Output_write (update_ntimestep (lmp_update w))) w)
         else w)"

subsection \<open>Reading the trace\<close>

text \<open>
  Kinds of calls: a force-field contributor computing; a call that resets the reference
  positions or the vector aliases; the calls \<^verbatim>\<open>run\<close> makes after the loop, with the entry
  of \<^verbatim>\<open>energy_force\<close>. A \<open>pipeline\<close> call is any call that is neither a reset nor one of the
  calls after the loop, and a \<open>background\<close> call is a pipeline call that computes no force.
  \<open>continues P w w'\<close> says that \<open>w'\<close> comes after \<open>w\<close>: the trace has grown by calls
  that satisfy \<open>P\<close>, and the fields of \<open>kept\<close> are the same. \<open>rebuild_tail\<close> lists the
  calls of lines 507--510 of \<^verbatim>\<open>energy_force\<close>.
\<close>

definition force_evaluation :: "event \<Rightarrow> bool" where
  "force_evaluation e =
     (case e of Pair_compute _ _ \<Rightarrow> True | Bond_compute _ _ \<Rightarrow> True | Angle_compute _ _ \<Rightarrow> True
      | Dihedral_compute _ _ \<Rightarrow> True | Improper_compute _ _ \<Rightarrow> True | Kspace_compute _ _ \<Rightarrow> True
      | _ \<Rightarrow> False)"

definition resets :: "event \<Rightarrow> bool" where
  "resets e \<longleftrightarrow> e = Reset_vectors \<or> e = Fix_minimize_reset_coords"

definition post_loop :: "event \<Rightarrow> bool" where
  "post_loop e =
     (case e of Min_energy_force _ \<Rightarrow> True | Output_write _ \<Rightarrow> True
      | Modify_addstep_compute_all _ \<Rightarrow> True | _ \<Rightarrow> False)"

definition pipeline :: "event \<Rightarrow> bool" where
  "pipeline e \<longleftrightarrow> \<not> resets e \<and> \<not> post_loop e"

definition background :: "event \<Rightarrow> bool" where
  "background e \<longleftrightarrow> pipeline e \<and> \<not> force_evaluation e"

definition kept :: "lammps \<Rightarrow> output_t \<times> int \<times> int \<times> int \<times> int \<times> int" where
  "kept w = (lmp_output w, update_ntimestep (lmp_update w), searchflag w, nextra_atom w,
             nextra_global w, atom_natoms (lmp_atom w))"

definition continues :: "(event \<Rightarrow> bool) \<Rightarrow> lammps \<Rightarrow> lammps \<Rightarrow> bool" where
  "continues P w w' \<longleftrightarrow>
     (\<exists>es. trace w' = trace w @ es \<and> list_all P es) \<and> kept w' = kept w"

definition rebuild_tail :: "int \<Rightarrow> int \<Rightarrow> event list" where
  "rebuild_tail nflag resetflag =
     (if nflag \<noteq> 0
      then (if resetflag \<noteq> 0 then [Fix_minimize_reset_coords] else []) @ [Reset_vectors]
      else [])"

subsection \<open>Example configurations\<close>

text \<open>
  A process on which nothing is set, and one that owns \<open>n\<close> atoms, each with the force
  \<open>(a, 0, 0)\<close>, with \<^verbatim>\<open>fvec\<close> aliasing the forces.
\<close>

definition idle :: lammps where
  "idle =
     \<lparr>searchflag = 0, elist_global = [], elist_atom = [], vlist_global = [], vlist_atom = [],
      nextra_global = 0, fextra = [], nextra_atom = 0, xextra_atom = [], fextra_atom = [],
      extra_peratom = [], extra_nlen = [], extra_max = [], requestor = [], virial_style = 0,
      torqueflag = 0, erforceflag = 0, triclinic = 0, neigh_every = 0, neigh_delay = 0,
      neigh_dist_check = 0, niter = 0, neval = 0, pe_compute = 0, ndoftotal = 0, eflag = 0,
      vflag = 0, ecurrent = 0, einitial = 0, efinal = 0, fnorm2_init = 0, fnorminf_init = 0,
      fnorm2_final = 0, fnorminf_final = 0, stop_condition = 0, stopstr = None, nvec = 0,
      fvec = (\<lambda>_. 0),
      lmp_atom = \<lparr>atom_nlocal = 0, atom_nghost = 0, atom_natoms = 0, atom_f = (\<lambda>_. (0, 0, 0)),
                  atom_torque = (\<lambda>_. (0, 0, 0)), atom_erforce = (\<lambda>_. 0), atom_torque_flag = 0,
                  atom_erforce_flag = 0, atom_molecular = 0, atom_sortfreq = 0, atom_nextsort = 0\<rparr>,
      lmp_comm = \<lparr>comm_me = 0, comm_nthreads = 1\<rparr>,
      lmp_domain = \<lparr>domain_triclinic = 0, domain_box_change = 0\<rparr>,
      lmp_force = \<lparr>force_newton = 0, force_newton_pair = 0, force_pair = False, force_bond = False,
                   force_angle = False, force_dihedral = False, force_improper = False,
                   force_kspace = False\<rparr>,
      lmp_modify = \<lparr>modify_ncompute = 0,
                    modify_compute = (\<lambda>_. \<lparr>peflag = 0, peatomflag = 0, pressflag = 0, pressatomflag = 0\<rparr>),
                    n_min_pre_exchange = 0, n_min_pre_force = 0, n_min_post_force = 0\<rparr>,
      lmp_neighbor = \<lparr>neighbor_every = 1, neighbor_delay = 0, neighbor_dist_check = 1,
                      neighbor_style = 0, neighbor_ncalls = 0\<rparr>,
      lmp_output = \<lparr>output_ndump = 0, output_next_dump = (\<lambda>_. 0), output_next_dump_any = 0,
                    output_restart_every = 0, output_next_restart = 0, output_next_thermo = 0,
                    thermo_normflag = 0\<rparr>,
      lmp_update = \<lparr>update_ntimestep = 0, update_nsteps = 0, update_restrict_output = 0,
                    update_eflag_global = 0, update_eflag_atom = 0, update_vflag_global = 0,
                    update_vflag_atom = 0\<rparr>,
      screen = False, trace = []\<rparr>"


text \<open>A process that owns the atoms with the forces \<open>fs\<close>, with \<^verbatim>\<open>fvec\<close> aliasing them.\<close>

definition owning :: "vec3 list \<Rightarrow> lammps" where
  "owning fs =
     idle\<lparr>nvec := 3 * int (length fs),
          fvec := (\<lambda>i. case fs ! (i div 3) of
                          (x, y, z) \<Rightarrow> if i mod 3 = 0 then x else if i mod 3 = 1 then y else z),
          lmp_atom := (lmp_atom idle)\<lparr>atom_nlocal := int (length fs), atom_f := (\<lambda>i. fs ! i)\<rparr>\<rparr>"

text \<open>
  A process with one owned atom and one ghost atom, all arrays nonzero, Newton's third law
  off and one thread; and the same with Newton's third law on and the torque and
  electron-force flags set.
\<close>

definition ghosted :: lammps where
  "ghosted =
     idle\<lparr>lmp_atom := (lmp_atom idle)
            \<lparr>atom_nlocal := 1, atom_nghost := 1, atom_f := (\<lambda>_. (1, 2, 3)),
             atom_torque := (\<lambda>_. (4, 5, 6)), atom_erforce := (\<lambda>_. 7)\<rparr>\<rparr>"

definition ghosted_newton :: lammps where
  "ghosted_newton =
     ghosted\<lparr>lmp_force := (lmp_force ghosted)\<lparr>force_newton := 1\<rparr>,
             torqueflag := 1, erforceflag := 1\<rparr>"

text \<open>
  Collaborators that answer 0 to everything, with an \<^verbatim>\<open>iterate\<close> that does nothing; and
  the registry after one request on the empty registry.
\<close>

definition mute :: env where
  "mute =
     \<lparr>neighbor_decide = (\<lambda>_. 0), modify_min_dof = (\<lambda>_. 0), modify_find_compute = (\<lambda>_ _. 0),
      compute_scalar = (\<lambda>_ _. 0), compute_matchstep = (\<lambda>_ _ _. 0),
      modify_min_energy = (\<lambda>_. (0, \<lambda>_. 0)), min_iterate = (\<lambda>_ w. (0, w)),
      mpi_allreduce_sum = (\<lambda>_ x. x), mpi_allreduce_max = (\<lambda>_ x. x),
      mpi_allreduce_sum_bigint = (\<lambda>_ n. n), uninit_double = 0, uninit_int = 0,
      uninit_ptr = (\<lambda>_. 0), uninit_pair = 0\<rparr>"

definition one_slot :: lammps where
  "one_slot = snd (request mute 7 2 (1 / 2) idle)"

text \<open>
  Computes of which only compute 1 matches, and only step 5; and a process at step 5 whose
  per-atom lists hold that compute.
\<close>

definition step5 :: env where
  "step5 = mute\<lparr>compute_matchstep := (\<lambda>c t _. if c = 1 \<and> t = 5 then 1 else 0)\<rparr>"

definition watched :: lammps where
  "watched = idle\<lparr>elist_global := [0], elist_atom := [0, 1], vlist_global := [2],
                   vlist_atom := [1], virial_style := 2,
                   lmp_update := (lmp_update idle)\<lparr>update_ntimestep := 5\<rparr>\<rparr>"

text \<open>Collaborators as in \<open>mute\<close>, with a neighbor list that asks for a rebuild.\<close>

definition rebuilds :: env where
  "rebuilds = mute\<lparr>neighbor_decide := (\<lambda>_. 1)\<rparr>"

text \<open>Collaborators as in \<open>mute\<close>, with a fix that contributes one global degree of freedom.\<close>

definition boxrelax :: env where
  "boxrelax = mute\<lparr>modify_min_dof := (\<lambda>_. 1)\<rparr>"

text \<open>
  Collaborators whose \<^verbatim>\<open>iterate\<close> stops at once with code 3 (force tolerance) and whose
  neighbor list asks for a rebuild; a process at step 7 with one dump, restart files and all
  next due steps at 100; and the same with \<^verbatim>\<open>update->restrict_output\<close> set.
\<close>

definition stops :: env where
  "stops = rebuilds\<lparr>min_iterate := (\<lambda>_ w. (3, w))\<rparr>"

definition dumping :: lammps where
  "dumping =
     idle\<lparr>lmp_update := (lmp_update idle)\<lparr>update_ntimestep := 7\<rparr>,
          lmp_output := (lmp_output idle)
            \<lparr>output_ndump := 1, output_next_dump := (\<lambda>_. 100), output_next_dump_any := 100,
             output_restart_every := 50, output_next_restart := 100, output_next_thermo := 100\<rparr>\<rparr>"

definition restricted :: lammps where
  "restricted = dumping\<lparr>lmp_update := (lmp_update dumping)\<lparr>update_restrict_output := 1\<rparr>\<rparr>"

text \<open>
  Collaborators as in \<open>mute\<close> whose potential energy is 5; and a process with two atoms
  in all, whose thermo output is normalised.
\<close>

definition calm :: env where
  "calm = mute\<lparr>compute_scalar := (\<lambda>_ _. 5)\<rparr>"

definition normalised :: lammps where
  "normalised =
     idle\<lparr>lmp_atom := (lmp_atom idle)\<lparr>atom_natoms := 2\<rparr>,
          lmp_output := (lmp_output idle)\<lparr>thermo_normflag := 1\<rparr>\<rparr>"

section \<open>Properties\<close>

subsection \<open>The squared two-norm\<close>













subsection \<open>The maximum norm\<close>

lemma MAX_macro_max: "MAX_macro = max"
  by (intro ext) (simp add: MAX_macro_def max_def)

lemma Max_insert_Max:
  fixes a :: real
  assumes "finite A" "finite B"
  shows "Max (insert (Max (insert a A)) B) = Max (insert a (A \<union> B))"
proof (cases "B = {}")
  case True
  then show ?thesis by simp
next
  case False
  have "Max (insert a (A \<union> B)) = Max (insert a A \<union> B)" by simp
  also have "\<dots> = max (Max (insert a A)) (Max B)"
    using assms False by (intro Max.union) simp_all
  also have "\<dots> = Max (insert (Max (insert a A)) B)"
    using assms False by simp
  finally show ?thesis by simp
qed

lemma fold_max_Max:
  "fold (\<lambda>x. max (h x)) xs (a::real) = Max (insert a (h ` set xs))"
proof (induction xs arbitrary: a)
  case Nil
  show ?case by simp
next
  case (Cons x xs)
  have "Max (insert (max (h x) a) (h ` set xs)) = Max (insert (Max (insert a {h x})) (h ` set xs))"
    by (simp add: max.commute)
  also have "\<dots> = Max (insert a ({h x} \<union> h ` set xs))"
    by (rule Max_insert_Max) simp_all
  finally show ?case using Cons by simp
qed

lemma fold_fold_max_Max:
  "fold (\<lambda>m. fold (\<lambda>i. max (h m i)) (ys m)) ms (a::real) =
     Max (insert a (\<Union>m\<in>set ms. h m ` set (ys m)))"
proof (induction ms arbitrary: a)
  case Nil
  show ?case by simp
next
  case (Cons m ms)
  have "Max (insert (Max (insert a (h m ` set (ys m)))) (\<Union>m\<in>set ms. h m ` set (ys m))) =
        Max (insert a (h m ` set (ys m) \<union> (\<Union>m\<in>set ms. h m ` set (ys m))))"
    by (rule Max_insert_Max) simp_all
  with Cons show ?case by (simp add: fold_max_Max)
qed

lemma fnorm_inf_local_Max:
  "fnorm_inf_local w = Max (insert 0 (abs ` set (local_components w)))"
proof -
  let ?A = "(\<lambda>i. \<bar>fvec w i\<bar>) ` set [0..<nat (nvec w)]"
  let ?B = "\<Union>m\<in>set [0..<nat (nextra_atom w)]. (\<lambda>i. \<bar>(fextra_atom w ! m) i\<bar>) ` set [0..<nat (extra_nlen w ! m)]"
  have "fnorm_inf_local w = Max (insert (Max (insert 0 ?A)) ?B)"
    apply (simp only: fnorm_inf_local_def Let_def MAX_macro_max)
    apply (subst fold_fold_max_Max)
    apply (simp add: fold_max_Max)
    done
  also have "\<dots> = Max (insert 0 (?A \<union> ?B))"
    by (rule Max_insert_Max) simp_all
  also have "?A \<union> ?B = abs ` set (local_components w)"
    by (auto simp: local_components_def image_iff)
  finally show ?thesis .
qed

lemma fnorm_inf_global_Max:
  "fnorm_inf allreduce w =
     Max (insert (allreduce (fnorm_inf_local w)) (abs ` set (global_components w)))"
proof -
  have "abs ` set (global_components w) = (\<lambda>i. \<bar>fextra w ! i\<bar>) ` set [0..<nat (nextra_global w)]"
    by (auto simp: global_components_def image_iff)
  then show ?thesis
    by (simp add: fnorm_inf_def Let_def MAX_macro_max fold_max_Max)
qed

lemma MPI_Allreduce_MAX_Max:
  "MPI_Allreduce_MAX (y # ys) = Max (insert y (set ys))"
proof -
  have "fold max ys y = fold (\<lambda>x. max (id x)) ys y" by (simp add: id_def)
  also have "\<dots> = Max (insert y (id ` set ys))" by (rule fold_max_Max)
  finally show ?thesis by (simp add: MPI_Allreduce_MAX_def)
qed

lemma Max_of_local_maxima:
  "Max (insert 0 (set (map fnorm_inf_local ws))) =
     Max (insert 0 (abs ` set (concat (map local_components ws))))"
proof (induction ws)
  case Nil
  show ?case by simp
next
  case (Cons w ws)
  let ?L = "abs ` set (local_components w)"
  let ?R = "abs ` set (concat (map local_components ws))"
  have "Max (insert 0 (set (map fnorm_inf_local (w # ws)))) =
        Max (insert (Max (insert 0 ?L)) (insert 0 (set (map fnorm_inf_local ws))))"
    by (simp add: fnorm_inf_local_Max insert_commute)
  also have "\<dots> = max (Max (insert 0 ?L)) (Max (insert 0 (set (map fnorm_inf_local ws))))"
    by simp
  also have "\<dots> = max (Max (insert 0 ?L)) (Max (insert 0 ?R))"
    using Cons by simp
  also have "\<dots> = Max (insert (Max (insert 0 ?L)) (insert 0 ?R))"
    by simp
  also have "\<dots> = Max (insert 0 (?L \<union> insert 0 ?R))"
    by (rule Max_insert_Max) simp_all
  also have "insert 0 (?L \<union> insert 0 ?R) = insert 0 (abs ` set (concat (map local_components (w # ws))))"
    by auto
  finally show ?case .
qed

lemma fnorm_inf_local_nonneg: "0 \<le> fnorm_inf_local w"
  by (simp add: fnorm_inf_local_Max)

lemma MPI_Allreduce_MAX_local:
  assumes "ws \<noteq> []"
  shows "MPI_Allreduce_MAX (map fnorm_inf_local ws) =
           Max (insert 0 (abs ` set (concat (map local_components ws))))"
proof -
  obtain v vs where ws: "ws = v # vs" using assms by (cases ws) auto
  have "MPI_Allreduce_MAX (map fnorm_inf_local ws) = Max (set (map fnorm_inf_local ws))"
    by (simp add: ws MPI_Allreduce_MAX_Max)
  also have "\<dots> = Max (insert 0 (set (map fnorm_inf_local ws)))"
  proof -
    have "0 \<le> Max (set (map fnorm_inf_local ws))"
      using fnorm_inf_local_nonneg [of v] by (simp add: ws Max_ge_iff)
    then show ?thesis by (simp add: ws max_def)
  qed
  also have "\<dots> = Max (insert 0 (abs ` set (concat (map local_components ws))))"
    by (rule Max_of_local_maxima)
  finally show ?thesis .
qed

lemma fnorm_inf_world_Max:
  assumes "r < length ws"
  shows "fnorm_inf_world ws ! r =
           Max (insert 0 (abs ` (set (concat (map local_components ws)) \<union>
                                 set (global_components (ws ! r)))))"
proof -
  have ne: "ws \<noteq> []" using assms by auto
  have "fnorm_inf_world ws ! r =
          Max (insert (MPI_Allreduce_MAX ((map fnorm_inf_local ws)[r := fnorm_inf_local (ws ! r)]))
                 (abs ` set (global_components (ws ! r))))"
    using assms by (simp add: fnorm_inf_world_def fnorm_inf_global_Max)
  also have "(map fnorm_inf_local ws)[r := fnorm_inf_local (ws ! r)] = map fnorm_inf_local ws"
    using assms by (simp add: list_update_same_conv)
  also have "MPI_Allreduce_MAX (map fnorm_inf_local ws) =
               Max (insert 0 (abs ` set (concat (map local_components ws))))"
    using ne by (rule MPI_Allreduce_MAX_local)
  also have "Max (insert (Max (insert 0 (abs ` set (concat (map local_components ws)))))
                 (abs ` set (global_components (ws ! r)))) =
             Max (insert 0 (abs ` set (concat (map local_components ws)) \<union>
                            abs ` set (global_components (ws ! r))))"
    by (rule Max_insert_Max) simp_all
  finally show ?thesis by (simp add: image_Un)
qed


lemma owning_local_components:
  "local_components (owning [(a, b, c), (d, e, g)]) = [a, b, c, d, e, g]"
  "local_components (owning [(a, b, c)]) = [a, b, c]"
  "global_components (owning fs) = []"
  by (simp_all add: local_components_def global_components_def owning_def idle_def upt_rec)

text \<open>
  Claim C8. \<^verbatim>\<open>fnorm_inf\<close> returns, on every rank \<open>r\<close>, the largest absolute value among
  the local force components of all processes and the global extra forces of rank \<open>r\<close>
  (and 0 when there are none). Hence any two distributions of the same multiset of local
  force components over any numbers of processes give the same value, the global extra
  forces being the same.
\<close>

theorem fnorm_inf_partition_invariant:
  assumes "r < length ws"
  shows "fnorm_inf_world ws ! r =
           Max (insert 0 (abs ` (set (concat (map local_components ws)) \<union>
                                 set (global_components (ws ! r))))) \<and>
         (\<forall>ws' r'. r' < length ws' \<and>
              mset (concat (map local_components ws')) = mset (concat (map local_components ws)) \<and>
              global_components (ws' ! r') = global_components (ws ! r) \<longrightarrow>
            fnorm_inf_world ws' ! r' = fnorm_inf_world ws ! r)"
proof (intro conjI allI impI)
  show a: "fnorm_inf_world ws ! r =
           Max (insert 0 (abs ` (set (concat (map local_components ws)) \<union>
                                 set (global_components (ws ! r)))))"
    using assms by (rule fnorm_inf_world_Max)
  fix ws' r'
  assume h: "r' < length ws' \<and>
              mset (concat (map local_components ws')) = mset (concat (map local_components ws)) \<and>
              global_components (ws' ! r') = global_components (ws ! r)"
  then have "set (concat (map local_components ws')) = set (concat (map local_components ws))"
    by (metis set_mset_mset)
  with h a show "fnorm_inf_world ws' ! r' = fnorm_inf_world ws ! r"
    by (simp add: fnorm_inf_world_Max)
qed

theorem fnorm_inf_partition_invariant_witness:
  "(0::nat) < length [owning [(3, -4, 0), (1, 0, 2)]] \<and>
   (1::nat) < length [owning [(1, 0, 2)], owning [(3, -4, 0)]] \<and>
   mset (concat (map local_components [owning [(1, 0, 2)], owning [(3, -4, 0)]])) =
     mset (concat (map local_components [owning [(3, -4, 0), (1, 0, 2)]])) \<and>
   global_components ([owning [(1, 0, 2)], owning [(3, -4, 0)]] ! 1) =
     global_components ([owning [(3, -4, 0), (1, 0, 2)]] ! 0) \<and>
   fnorm_inf_world [owning [(3, -4, 0), (1, 0, 2)]] ! 0 = 4 \<and>
   fnorm_inf_world [owning [(1, 0, 2)], owning [(3, -4, 0)]] ! 1 = 4"
  using fnorm_inf_partition_invariant [of 0 "[owning [(3, -4, 0), (1, 0, 2)]]"]
  by (simp add: owning_local_components)

subsection \<open>Clearing the forces\<close>

lemma fold_clear:
  "fold (\<lambda>i f. f(i := z)) [0..<n] f0 = (\<lambda>i. if i < n then z else f0 i)"
  by (induction n) (auto simp: fun_eq_iff)

lemma force_clear_atom_f:
  "atom_f (lmp_atom (force_clear w)) =
     (\<lambda>i. if i < nat (force_clear_nall w * comm_nthreads (lmp_comm w)) then (0, 0, 0)
           else atom_f (lmp_atom w) i)"
  by (simp add: force_clear_def force_clear_nall_def Let_def fold_clear)

lemma force_clear_atom_torque:
  "atom_torque (lmp_atom (force_clear w)) =
     (\<lambda>i. if torqueflag w \<noteq> 0 \<and> i < nat (force_clear_nall w) then (0, 0, 0)
           else atom_torque (lmp_atom w) i)"
  by (simp add: force_clear_def force_clear_nall_def Let_def fold_clear)

lemma force_clear_atom_erforce:
  "atom_erforce (lmp_atom (force_clear w)) =
     (\<lambda>i. if erforceflag w \<noteq> 0 \<and> i < nat (force_clear_nall w) then 0
           else atom_erforce (lmp_atom w) i)"
  by (cases "torqueflag w = 0"; cases "erforceflag w = 0")
     (simp_all add: force_clear_def force_clear_nall_def Let_def fold_clear)

lemma covers:
  assumes "1 \<le> (t::int)" "int i < n"
  shows "i < nat (n * t)"
proof -
  have "0 \<le> n" using assms(2) by simp
  then have "n * 1 \<le> n * t" using assms(1) by (intro mult_left_mono) simp_all
  then have "n \<le> n * t" by simp
  with assms(2) have "int i < n * t" by linarith
  then show ?thesis by (simp add: zless_nat_eq_int_zless)
qed

text \<open>
  Claim C4 as stated fails: with \<^verbatim>\<open>force->newton\<close> off, the force of a ghost atom
  survives \<^verbatim>\<open>force_clear\<close>.
\<close>

theorem force_clear_ghosts_counterexample:
  "int 1 < atom_nlocal (lmp_atom ghosted) + atom_nghost (lmp_atom ghosted) \<and>
   atom_f (lmp_atom (force_clear ghosted)) 1 = (1, 2, 3) \<and>
   atom_f (lmp_atom (force_clear ghosted)) 1 \<noteq> (0, 0, 0)"
  by (simp add: force_clear_atom_f force_clear_nall_def ghosted_def idle_def)

text \<open>
  Claim C4, amended. \<^verbatim>\<open>force_clear\<close> zeroes the force of entry \<open>i\<close> exactly for
  \<open>i < nall * nthreads\<close>, and the torque and the electron force (when their flag is set)
  exactly for \<open>i < nall\<close>, where \<open>nall\<close> counts the ghost atoms only if \<^verbatim>\<open>force->newton\<close>
  is set. So the owned atoms are always cleared, the ghost atoms are cleared when
  \<^verbatim>\<open>force->newton\<close> is set, and with \<^verbatim>\<open>force->newton\<close> off (and one thread) every entry
  from the first ghost atom on is left as it was.
\<close>

theorem force_clear_zeroes:
  "atom_f (lmp_atom (force_clear w)) =
     (\<lambda>i. if i < nat (force_clear_nall w * comm_nthreads (lmp_comm w)) then (0, 0, 0)
           else atom_f (lmp_atom w) i) \<and>
   atom_torque (lmp_atom (force_clear w)) =
     (\<lambda>i. if torqueflag w \<noteq> 0 \<and> i < nat (force_clear_nall w) then (0, 0, 0)
           else atom_torque (lmp_atom w) i) \<and>
   atom_erforce (lmp_atom (force_clear w)) =
     (\<lambda>i. if erforceflag w \<noteq> 0 \<and> i < nat (force_clear_nall w) then 0
           else atom_erforce (lmp_atom w) i) \<and>
   (1 \<le> comm_nthreads (lmp_comm w) \<and> 0 \<le> atom_nghost (lmp_atom w) \<longrightarrow>
      (\<forall>i. int i < atom_nlocal (lmp_atom w) \<longrightarrow>
           atom_f (lmp_atom (force_clear w)) i = (0, 0, 0) \<and>
           (torqueflag w \<noteq> 0 \<longrightarrow> atom_torque (lmp_atom (force_clear w)) i = (0, 0, 0)) \<and>
           (erforceflag w \<noteq> 0 \<longrightarrow> atom_erforce (lmp_atom (force_clear w)) i = 0))) \<and>
   (1 \<le> comm_nthreads (lmp_comm w) \<and> force_newton (lmp_force w) \<noteq> 0 \<longrightarrow>
      (\<forall>i. int i < atom_nlocal (lmp_atom w) + atom_nghost (lmp_atom w) \<longrightarrow>
           atom_f (lmp_atom (force_clear w)) i = (0, 0, 0) \<and>
           (torqueflag w \<noteq> 0 \<longrightarrow> atom_torque (lmp_atom (force_clear w)) i = (0, 0, 0)) \<and>
           (erforceflag w \<noteq> 0 \<longrightarrow> atom_erforce (lmp_atom (force_clear w)) i = 0))) \<and>
   (comm_nthreads (lmp_comm w) = 1 \<and> force_newton (lmp_force w) = 0 \<longrightarrow>
      (\<forall>i. atom_nlocal (lmp_atom w) \<le> int i \<longrightarrow>
           atom_f (lmp_atom (force_clear w)) i = atom_f (lmp_atom w) i \<and>
           atom_torque (lmp_atom (force_clear w)) i = atom_torque (lmp_atom w) i \<and>
           atom_erforce (lmp_atom (force_clear w)) i = atom_erforce (lmp_atom w) i))"
proof -
  have f1: "atom_f (lmp_atom (force_clear w)) i = (0, 0, 0)"
    if "1 \<le> comm_nthreads (lmp_comm w)" "int i < force_clear_nall w" for i
    using covers [OF that] by (simp add: force_clear_atom_f)
  have t1: "atom_torque (lmp_atom (force_clear w)) i = (0, 0, 0)"
    if "torqueflag w \<noteq> 0" "int i < force_clear_nall w" for i
    using that by (simp add: force_clear_atom_torque zless_nat_eq_int_zless)
  have e1: "atom_erforce (lmp_atom (force_clear w)) i = 0"
    if "erforceflag w \<noteq> 0" "int i < force_clear_nall w" for i
    using that by (simp add: force_clear_atom_erforce zless_nat_eq_int_zless)
  have n1: "int i < force_clear_nall w"
    if "int i < atom_nlocal (lmp_atom w)" "0 \<le> atom_nghost (lmp_atom w)" for i
    using that by (simp add: force_clear_nall_def)
  have n2: "int i < force_clear_nall w"
    if "int i < atom_nlocal (lmp_atom w) + atom_nghost (lmp_atom w)"
       "force_newton (lmp_force w) \<noteq> 0" for i
    using that by (simp add: force_clear_nall_def)
  have locals: "atom_f (lmp_atom (force_clear w)) i = (0, 0, 0) \<and>
           (torqueflag w \<noteq> 0 \<longrightarrow> atom_torque (lmp_atom (force_clear w)) i = (0, 0, 0)) \<and>
           (erforceflag w \<noteq> 0 \<longrightarrow> atom_erforce (lmp_atom (force_clear w)) i = 0)"
    if "1 \<le> comm_nthreads (lmp_comm w)" "0 \<le> atom_nghost (lmp_atom w)"
       "int i < atom_nlocal (lmp_atom w)" for i
    using f1 t1 e1 n1 that by blast
  have ghosts: "atom_f (lmp_atom (force_clear w)) i = (0, 0, 0) \<and>
           (torqueflag w \<noteq> 0 \<longrightarrow> atom_torque (lmp_atom (force_clear w)) i = (0, 0, 0)) \<and>
           (erforceflag w \<noteq> 0 \<longrightarrow> atom_erforce (lmp_atom (force_clear w)) i = 0)"
    if "1 \<le> comm_nthreads (lmp_comm w)" "force_newton (lmp_force w) \<noteq> 0"
       "int i < atom_nlocal (lmp_atom w) + atom_nghost (lmp_atom w)" for i
    using f1 t1 e1 n2 that by blast
  have kept: "atom_f (lmp_atom (force_clear w)) i = atom_f (lmp_atom w) i \<and>
           atom_torque (lmp_atom (force_clear w)) i = atom_torque (lmp_atom w) i \<and>
           atom_erforce (lmp_atom (force_clear w)) i = atom_erforce (lmp_atom w) i"
    if "comm_nthreads (lmp_comm w) = 1" "force_newton (lmp_force w) = 0"
       "atom_nlocal (lmp_atom w) \<le> int i" for i
    using that
    by (simp add: force_clear_atom_f force_clear_atom_torque force_clear_atom_erforce
        force_clear_nall_def zless_nat_eq_int_zless)
  show ?thesis
    using force_clear_atom_f [of w] force_clear_atom_torque [of w] force_clear_atom_erforce [of w]
      locals ghosts kept
    by blast
qed

theorem force_clear_zeroes_witness:
  "1 \<le> comm_nthreads (lmp_comm ghosted) \<and> 0 \<le> atom_nghost (lmp_atom ghosted) \<and>
   int 0 < atom_nlocal (lmp_atom ghosted) \<and>
   atom_f (lmp_atom (force_clear ghosted)) 0 = (0, 0, 0) \<and>
   comm_nthreads (lmp_comm ghosted) = 1 \<and> force_newton (lmp_force ghosted) = 0 \<and>
   atom_nlocal (lmp_atom ghosted) \<le> int 1 \<and>
   atom_f (lmp_atom (force_clear ghosted)) 1 = atom_f (lmp_atom ghosted) 1 \<and>
   atom_torque (lmp_atom ghosted_newton) 1 = (4, 5, 6) \<and>
   atom_erforce (lmp_atom ghosted_newton) 1 = 7 \<and>
   1 \<le> comm_nthreads (lmp_comm ghosted_newton) \<and>
   int 1 < atom_nlocal (lmp_atom ghosted_newton) + atom_nghost (lmp_atom ghosted_newton) \<and>
   force_newton (lmp_force ghosted_newton) \<noteq> 0 \<and>
   torqueflag ghosted_newton \<noteq> 0 \<and>
   erforceflag ghosted_newton \<noteq> 0 \<and>
   atom_f (lmp_atom (force_clear ghosted_newton)) 1 = (0, 0, 0) \<and>
   atom_torque (lmp_atom (force_clear ghosted_newton)) 1 = (0, 0, 0) \<and>
   atom_erforce (lmp_atom (force_clear ghosted_newton)) 1 = 0"
  using force_clear_zeroes [of ghosted]
    force_clear_zeroes [of ghosted_newton]
  by (simp add: ghosted_newton_def ghosted_def idle_def force_clear_nall_def)

subsection \<open>Registry and reneighboring criteria\<close>

lemma ev_setup_frame:
  "\<exists>a b c d. ev_setup w = w\<lparr>elist_global := a, elist_atom := b, vlist_global := c, vlist_atom := d\<rparr>"
proof -
  define P where "P s \<longleftrightarrow>
    (\<exists>a b c d. s = w\<lparr>elist_global := a, elist_atom := b, vlist_global := c, vlist_atom := d\<rparr>)" for s
  have g: "P (s\<lparr>elist_global := x\<rparr>)" "P (s\<lparr>elist_atom := x\<rparr>)"
          "P (s\<lparr>vlist_global := x\<rparr>)" "P (s\<lparr>vlist_atom := x\<rparr>)" if "P s" for s x
  proof -
    from that obtain a b c d
      where s: "s = w\<lparr>elist_global := a, elist_atom := b, vlist_global := c, vlist_atom := d\<rparr>"
      unfolding P_def by blast
    have "s\<lparr>elist_global := x\<rparr> = w\<lparr>elist_global := x, elist_atom := b, vlist_global := c, vlist_atom := d\<rparr>"
         "s\<lparr>elist_atom := x\<rparr> = w\<lparr>elist_global := a, elist_atom := x, vlist_global := c, vlist_atom := d\<rparr>"
         "s\<lparr>vlist_global := x\<rparr> = w\<lparr>elist_global := a, elist_atom := b, vlist_global := x, vlist_atom := d\<rparr>"
         "s\<lparr>vlist_atom := x\<rparr> = w\<lparr>elist_global := a, elist_atom := b, vlist_global := c, vlist_atom := x\<rparr>"
      by (simp_all add: s)
    then show "P (s\<lparr>elist_global := x\<rparr>)" "P (s\<lparr>elist_atom := x\<rparr>)"
          "P (s\<lparr>vlist_global := x\<rparr>)" "P (s\<lparr>vlist_atom := x\<rparr>)"
      unfolding P_def by blast+
  qed
  have "P (ev_setup w)"
    unfolding ev_setup_def Let_def
  proof (rule fold_invariant [where Q = "\<lambda>_. True"])
    show "P (w\<lparr>elist_global := [], elist_atom := [], vlist_global := [], vlist_atom := []\<rparr>)"
      unfolding P_def by blast
  qed (simp_all add: g)
  then show ?thesis unfolding P_def .
qed

lemma ev_setup_fields:
  "nextra_atom (ev_setup w) = nextra_atom w"
  "nextra_global (ev_setup w) = nextra_global w"
  "fextra (ev_setup w) = fextra w"
  "requestor (ev_setup w) = requestor w"
  "extra_peratom (ev_setup w) = extra_peratom w"
  "extra_nlen (ev_setup w) = extra_nlen w"
  "extra_max (ev_setup w) = extra_max w"
  "xextra_atom (ev_setup w) = xextra_atom w"
  "fextra_atom (ev_setup w) = fextra_atom w"
  "virial_style (ev_setup w) = virial_style w"
  "lmp_atom (ev_setup w) = lmp_atom w"
  "lmp_comm (ev_setup w) = lmp_comm w"
  "lmp_domain (ev_setup w) = lmp_domain w"
  "lmp_neighbor (ev_setup w) = lmp_neighbor w"
  "trace (ev_setup w) = trace w"
  using ev_setup_frame [of w] by auto


lemma init_extra_dof_eq:
  "init_extra_dof w =
     w\<lparr>nextra_global := 0, fextra := [], nextra_atom := 0, xextra_atom := [], fextra_atom := [],
       extra_peratom := [], extra_nlen := [], extra_max := [], requestor := []\<rparr>"
  by (simp add: init_extra_dof_def)

lemma init_flags_fields:
  "registry (init_flags w) = registry w"
  "lmp_neighbor (init_flags w) = lmp_neighbor w"
  "lmp_comm (init_flags w) = lmp_comm w"
  "trace (init_flags w) = trace w"
  by (cases "force_newton_pair (lmp_force w) = 0"; cases "atom_torque_flag (lmp_atom w) = 0";
      cases "atom_erforce_flag (lmp_atom w) = 0";
      simp add: init_flags_def registry_def Let_def ev_setup_fields)+

lemma init_reneighboring_fields:
  "registry (init_reneighboring w) = registry w"
  "cadence (init_reneighboring w) = (1, 0, 1)"
  "snapshot (init_reneighboring w) = cadence w"
  "trace (init_reneighboring w) =
     trace w @ (if cadence w \<noteq> (1, 0, 1) \<and> comm_me (lmp_comm w) = 0
                then [Error_warning ''Resetting reneighboring criteria during minimization'']
                else [])"
  by (cases "cadence w = (1, 0, 1)"; cases "comm_me (lmp_comm w) = 0";
      simp add: init_reneighboring_def registry_def cadence_def snapshot_def Let_def call_def;
      blast?)+

lemma init_unfold:
  "init w =
     call Init_style
       ((init_reneighboring (init_flags (init_extra_dof
            (call (Modify_add_fix [''MINIMIZE'', ''all'', ''MINIMIZE'']) w))))
        \<lparr>niter := 0, neval := 0\<rparr>)"
  by (simp only: init_def Let_def)

lemma registry_frame:
  "registry (call e w) = registry w"
  "registry (w\<lparr>niter := a, neval := b\<rparr>) = registry w"
  by (simp_all add: registry_def call_def)

lemma init_registry: "registry (init w) = (0, [], [], [], [], [], [])"
proof -
  have "registry (init w) =
          registry (init_extra_dof (call (Modify_add_fix [''MINIMIZE'', ''all'', ''MINIMIZE'']) w))"
    by (simp only: init_unfold registry_frame init_flags_fields init_reneighboring_fields)
  also have "\<dots> = (0, [], [], [], [], [], [])"
    by (simp add: init_extra_dof_eq registry_def)
  finally show ?thesis .
qed

lemma cadence_frame:
  "cadence (call e w) = cadence w"
  "cadence (w\<lparr>niter := a, neval := b\<rparr>) = cadence w"
  "snapshot (call e w) = snapshot w"
  "snapshot (w\<lparr>niter := a, neval := b\<rparr>) = snapshot w"
  "cadence (init_extra_dof w) = cadence w"
  "cadence (init_flags w) = cadence w"
  "lmp_comm (init_extra_dof w) = lmp_comm w"
  "lmp_comm (call e w) = lmp_comm w"
  by (simp_all add: cadence_def snapshot_def call_def init_extra_dof_eq init_flags_fields)

lemma init_cadence: "cadence (init w) = (1, 0, 1)" "snapshot (init w) = cadence w"
  by (simp_all only: init_unfold cadence_frame init_reneighboring_fields)

lemma init_trace:
  "trace (init w) =
     trace w @ Modify_add_fix [''MINIMIZE'', ''all'', ''MINIMIZE''] #
     (if cadence w \<noteq> (1, 0, 1) \<and> comm_me (lmp_comm w) = 0
      then [Error_warning ''Resetting reneighboring criteria during minimization''] else []) @
     [Init_style]"
proof -
  let ?w1 = "init_flags (init_extra_dof (call (Modify_add_fix [''MINIMIZE'', ''all'', ''MINIMIZE'']) w))"
  have c: "cadence ?w1 = cadence w" "lmp_comm ?w1 = lmp_comm w"
    by (simp_all only: cadence_frame init_flags_fields)
  have t: "trace ?w1 = trace w @ [Modify_add_fix [''MINIMIZE'', ''all'', ''MINIMIZE'']]"
    by (simp add: init_flags_fields init_extra_dof_eq call_def)
  have "trace (init w) = trace (init_reneighboring ?w1) @ [Init_style]"
    by (simp add: init_unfold call_def)
  then show ?thesis
    by (simp only: init_reneighboring_fields c t) simp
qed

lemma cleanup_cadence: "cadence (cleanup E w) = snapshot w"
  by (simp add: cadence_def snapshot_def cleanup_def Let_def call_def)

lemma request_result:
  assumes "registry_ok w"
  shows "request E pair peratom maxvalue w =
           (nextra_atom w,
            w\<lparr>xextra_atom := xextra_atom w @ [uninit_ptr E],
              fextra_atom := fextra_atom w @ [uninit_ptr E],
              extra_peratom := extra_peratom w @ [peratom],
              extra_nlen := extra_nlen w @ [uninit_int E],
              extra_max := extra_max w @ [maxvalue],
              requestor := requestor w @ [pair],
              nextra_atom := nextra_atom w + 1\<rparr>)"
proof -
  have n: "nat (nextra_atom w + 1) = Suc (nat (nextra_atom w))"
    using assms by (simp add: registry_ok_def nat_add_distrib)
  have u: "(xs @ [j])[nat (nextra_atom w) := v] = xs @ [v]"
    if "length xs = nat (nextra_atom w)" for xs :: "'b list" and j v
    using that [symmetric] by simp
  have "(requestor w @ [uninit_pair E])[nat (nextra_atom w) := pair] = requestor w @ [pair]"
       "(extra_peratom w @ [uninit_int E])[nat (nextra_atom w) := peratom] = extra_peratom w @ [peratom]"
       "(extra_max w @ [uninit_double E])[nat (nextra_atom w) := maxvalue] = extra_max w @ [maxvalue]"
    using assms by (simp_all add: registry_ok_def u)
  then show ?thesis
    using assms
    by (simp add: request_def Let_def srealloc_def registry_ok_def n)
qed


text \<open>
  Claim C6. On a registry with \<^verbatim>\<open>nextra_atom\<close> slots, \<^verbatim>\<open>request\<close> returns the number of
  slots registered before, grows each buffer of the registry (the four of the claim, and
  the two pointer buffers) by exactly one slot, stores the requestor, the number of
  components per atom and the maximum value in the new slot, and leaves the old slots as
  they were. \<^verbatim>\<open>init\<close> resets the registry to zero slots, so the next request returns 0.
\<close>

theorem request_grows_registry:
  assumes "registry_ok w"
  shows "fst (request E pair peratom maxvalue w) = nextra_atom w \<and>
         (let w' = snd (request E pair peratom maxvalue w); h = nat (nextra_atom w)
          in nextra_atom w' = nextra_atom w + 1 \<and>
             length (requestor w') = length (requestor w) + 1 \<and>
             length (extra_peratom w') = length (extra_peratom w) + 1 \<and>
             length (extra_nlen w') = length (extra_nlen w) + 1 \<and>
             length (extra_max w') = length (extra_max w) + 1 \<and>
             length (xextra_atom w') = length (xextra_atom w) + 1 \<and>
             length (fextra_atom w') = length (fextra_atom w) + 1 \<and>
             requestor w' ! h = pair \<and> extra_peratom w' ! h = peratom \<and>
             extra_max w' ! h = maxvalue \<and>
             take h (requestor w') = requestor w \<and>
             take h (extra_peratom w') = extra_peratom w \<and>
             take h (extra_nlen w') = extra_nlen w \<and>
             take h (extra_max w') = extra_max w \<and>
             take h (xextra_atom w') = xextra_atom w \<and>
             take h (fextra_atom w') = fextra_atom w \<and>
             registry_ok w') \<and>
         registry (init w) = (0, [], [], [], [], [], []) \<and>
         registry_ok (init w) \<and>
         fst (request E pair peratom maxvalue (init w)) = 0"
proof -
  have i: "registry (init w) = (0, [], [], [], [], [], [])"
    by (rule init_registry)
  then have ok: "registry_ok (init w)"
    by (simp add: registry_def registry_ok_def)
  have h0: "fst (request E pair peratom maxvalue (init w)) = 0"
    using i by (simp add: request_result [OF ok] registry_def)
  have l: "length (requestor w) = nat (nextra_atom w)"
          "length (extra_peratom w) = nat (nextra_atom w)"
          "length (extra_nlen w) = nat (nextra_atom w)"
          "length (extra_max w) = nat (nextra_atom w)"
          "length (xextra_atom w) = nat (nextra_atom w)"
          "length (fextra_atom w) = nat (nextra_atom w)"
          "0 \<le> nextra_atom w"
    using assms by (simp_all add: registry_ok_def)
  have "nat (nextra_atom w + 1) = Suc (nat (nextra_atom w))"
    using l(7) by (simp add: nat_add_distrib)
  then show ?thesis
    using i ok h0 l
    by (simp add: request_result [OF assms] Let_def registry_ok_def nth_append)
qed

lemma one_slot_eq:
  "one_slot = idle\<lparr>xextra_atom := [\<lambda>_. 0], fextra_atom := [\<lambda>_. 0], extra_peratom := [2],
                   extra_nlen := [0], extra_max := [1 / 2], requestor := [7], nextra_atom := 1\<rparr>"
proof -
  have "registry_ok idle" by (simp add: registry_ok_def idle_def)
  then show ?thesis
    by (simp add: one_slot_def request_result) (simp add: idle_def mute_def)
qed

theorem request_grows_registry_witness:
  "registry_ok one_slot \<and> nextra_atom one_slot = 1 \<and> requestor one_slot = [7] \<and>
   fst (request mute 8 3 (3 / 2) one_slot) = 1 \<and>
   nextra_atom (snd (request mute 8 3 (3 / 2) one_slot)) = 2 \<and>
   length (requestor (snd (request mute 8 3 (3 / 2) one_slot))) = 2 \<and>
   requestor (snd (request mute 8 3 (3 / 2) one_slot)) ! 1 = 8 \<and>
   extra_peratom (snd (request mute 8 3 (3 / 2) one_slot)) ! 1 = 3 \<and>
   extra_max (snd (request mute 8 3 (3 / 2) one_slot)) ! 1 = 3 / 2 \<and>
   take 1 (requestor (snd (request mute 8 3 (3 / 2) one_slot))) = [7] \<and>
   nextra_atom (init one_slot) = 0 \<and> requestor (init one_slot) = [] \<and>
   fst (request mute 8 3 (3 / 2) (init one_slot)) = 0"
proof -
  have ok: "registry_ok one_slot"
    by (simp add: one_slot_eq registry_ok_def)
  have v: "nextra_atom one_slot = 1" "requestor one_slot = [7]"
    by (simp_all add: one_slot_eq)
  show ?thesis
    using request_grows_registry [OF ok, of mute 8 3 "3 / 2"] ok v
    by (simp add: Let_def registry_def)
qed

text \<open>
  Claim C7. \<^verbatim>\<open>init\<close> saves the three cadence settings of the neighbor list and sets
  them to every = 1, delay = 0, dist_check = 1; the warning is among the calls of \<^verbatim>\<open>init\<close>
  exactly when the settings differed from that target, on the process of rank 0, which
  prints for all. \<^verbatim>\<open>cleanup\<close> writes the saved values back, so \<^verbatim>\<open>cleanup\<close> after \<^verbatim>\<open>init\<close>
  leaves the cadence as it was before \<^verbatim>\<open>init\<close>.
\<close>

theorem init_cleanup_cadence:
  "snapshot (init w) = cadence w \<and>
   cadence (init w) = (1, 0, 1) \<and>
   trace (init w) =
     trace w @ Modify_add_fix [''MINIMIZE'', ''all'', ''MINIMIZE''] #
     (if cadence w \<noteq> (1, 0, 1) \<and> comm_me (lmp_comm w) = 0
      then [Error_warning ''Resetting reneighboring criteria during minimization''] else []) @
     [Init_style] \<and>
   cadence (cleanup E w') = snapshot w' \<and>
   cadence (cleanup E (init w)) = cadence w"
  by (simp only: init_cadence init_trace cleanup_cadence)

subsection \<open>The energy and virial flags\<close>

lemma matchstep_loop_snd:
  "snd (matchstep_loop E t cs flag w) = w\<lparr>trace := trace w @ map (\<lambda>c. Compute_matchstep c t) cs\<rparr>"
  by (induction cs arbitrary: flag w) (simp_all add: call_def Let_def)

lemma matchstep_loop_fst:
  "fst (matchstep_loop E t cs flag w) =
     (if \<exists>r\<in>set (matchstep_answers E t cs w). r \<noteq> 0 then 1 else flag)"
  by (induction cs arbitrary: flag w) (simp_all add: Let_def)

lemma ev_set_energy_fields:
  "eflag (ev_set_energy E t w) = (if \<exists>r\<in>set (eatom_answers E t w). r \<noteq> 0 then 3 else 1)"
  "update_eflag_global (lmp_update (ev_set_energy E t w)) = update_ntimestep (lmp_update w)"
  "update_eflag_atom (lmp_update (ev_set_energy E t w)) =
     (if \<exists>r\<in>set (eatom_answers E t w). r \<noteq> 0 then update_ntimestep (lmp_update w)
      else update_eflag_atom (lmp_update w))"
  "update_ntimestep (lmp_update (ev_set_energy E t w)) = update_ntimestep (lmp_update w)"
  "update_vflag_atom (lmp_update (ev_set_energy E t w)) = update_vflag_atom (lmp_update w)"
  "update_vflag_global (lmp_update (ev_set_energy E t w)) = update_vflag_global (lmp_update w)"
  "virial_style (ev_set_energy E t w) = virial_style w"
  by (cases "\<exists>r\<in>set (eatom_answers E t w). r \<noteq> 0";
      simp add: ev_set_energy_def eatom_answers_def Let_def split_def
        matchstep_loop_snd matchstep_loop_fst)+

lemma ev_set_virial_fields:
  "vflag (ev_set_virial E t w) =
     (if \<exists>r\<in>set (matchstep_answers E t (vlist_global w) w). r \<noteq> 0 then virial_style w else 0) +
     (if \<exists>r\<in>set (matchstep_answers E t (vlist_atom w)
                      (snd (matchstep_loop E t (vlist_global w) 0 w))). r \<noteq> 0 then 4 else 0)"
  "eflag (ev_set_virial E t w) = eflag w"
  "update_eflag_global (lmp_update (ev_set_virial E t w)) = update_eflag_global (lmp_update w)"
  "update_eflag_atom (lmp_update (ev_set_virial E t w)) = update_eflag_atom (lmp_update w)"
  "update_vflag_atom (lmp_update (ev_set_virial E t w)) =
     (if \<exists>r\<in>set (matchstep_answers E t (vlist_atom w)
                      (snd (matchstep_loop E t (vlist_global w) 0 w))). r \<noteq> 0
      then update_ntimestep (lmp_update w) else update_vflag_atom (lmp_update w))"
  by (cases "\<exists>r\<in>set (matchstep_answers E t (vlist_global w) w). r \<noteq> 0";
      cases "\<exists>r\<in>set (matchstep_answers E t (vlist_atom w)
                      (snd (matchstep_loop E t (vlist_global w) 0 w))). r \<noteq> 0";
      cases "virial_style w = 0";
      simp add: ev_set_virial_def Let_def split_def matchstep_loop_snd matchstep_loop_fst)+


text \<open>
  Claim C2. \<^verbatim>\<open>ev_set\<close> always sets the global component of the energy flag (\<^verbatim>\<open>eflag\<close> is
  1 or 3, and \<^verbatim>\<open>update->eflag_global\<close> is set to the current step). The per-atom
  component (2 in \<^verbatim>\<open>eflag\<close>, 4 in \<^verbatim>\<open>vflag\<close>) is set exactly when a compute of the
  corresponding per-atom list answers \<^verbatim>\<open>matchstep\<close> with nonzero; when none does, the
  component is zero and \<^verbatim>\<open>update->eflag_atom\<close>, \<^verbatim>\<open>update->vflag_atom\<close> stay as they were.
\<close>

theorem ev_set_flags:
  "eflag (ev_set E t w) = (if \<exists>r\<in>set (eatom_answers E t w). r \<noteq> 0 then 3 else 1) \<and>
   eflag (ev_set E t w) mod 2 = 1 \<and>
   update_eflag_global (lmp_update (ev_set E t w)) = update_ntimestep (lmp_update w) \<and>
   vflag (ev_set E t w) =
     (if \<exists>r\<in>set (vglobal_answers E t w). r \<noteq> 0 then virial_style w else 0) +
     (if \<exists>r\<in>set (vatom_answers E t w). r \<noteq> 0 then 4 else 0) \<and>
   (eflag (ev_set E t w) = 3 \<longrightarrow> (\<exists>r\<in>set (eatom_answers E t w). r \<noteq> 0)) \<and>
   ((\<forall>r\<in>set (eatom_answers E t w). r = 0) \<longrightarrow>
      eflag (ev_set E t w) = 1 \<and>
      update_eflag_atom (lmp_update (ev_set E t w)) = update_eflag_atom (lmp_update w)) \<and>
   ((\<forall>r\<in>set (vatom_answers E t w). r = 0) \<longrightarrow>
      (vflag (ev_set E t w) = 0 \<or> vflag (ev_set E t w) = virial_style w) \<and>
      update_vflag_atom (lmp_update (ev_set E t w)) = update_vflag_atom (lmp_update w)) \<and>
   (virial_style w = 1 \<or> virial_style w = 2 \<longrightarrow>
      (4 \<le> vflag (ev_set E t w)) = (\<exists>r\<in>set (vatom_answers E t w). r \<noteq> 0))"
proof -
  let ?w2 = "ev_set_energy E t w"
  have e: "eflag (ev_set E t w) = (if \<exists>r\<in>set (eatom_answers E t w). r \<noteq> 0 then 3 else 1)"
    by (simp only: ev_set_def ev_set_virial_fields ev_set_energy_fields)
  have g: "update_eflag_global (lmp_update (ev_set E t w)) = update_ntimestep (lmp_update w)"
    by (simp only: ev_set_def ev_set_virial_fields ev_set_energy_fields)
  have a: "update_eflag_atom (lmp_update (ev_set E t w)) =
     (if \<exists>r\<in>set (eatom_answers E t w). r \<noteq> 0 then update_ntimestep (lmp_update w)
      else update_eflag_atom (lmp_update w))"
    by (simp only: ev_set_def ev_set_virial_fields ev_set_energy_fields)
  have v: "vflag (ev_set E t w) =
     (if \<exists>r\<in>set (vglobal_answers E t w). r \<noteq> 0 then virial_style w else 0) +
     (if \<exists>r\<in>set (vatom_answers E t w). r \<noteq> 0 then 4 else 0)"
    by (simp only: ev_set_def ev_set_virial_fields ev_set_energy_fields
        vglobal_answers_def vatom_answers_def Let_def)
  have va: "update_vflag_atom (lmp_update (ev_set E t w)) =
     (if \<exists>r\<in>set (vatom_answers E t w). r \<noteq> 0 then update_ntimestep (lmp_update w)
      else update_vflag_atom (lmp_update w))"
    by (simp only: ev_set_def ev_set_virial_fields ev_set_energy_fields
        vatom_answers_def Let_def)
  have 1: "eflag (ev_set E t w) mod 2 = 1" by (simp add: e)
  have 2: "eflag (ev_set E t w) = 3 \<longrightarrow> (\<exists>r\<in>set (eatom_answers E t w). r \<noteq> 0)"
    by (simp add: e)
  have 3: "(\<forall>r\<in>set (eatom_answers E t w). r = 0) \<longrightarrow>
      eflag (ev_set E t w) = 1 \<and>
      update_eflag_atom (lmp_update (ev_set E t w)) = update_eflag_atom (lmp_update w)"
    by (simp add: e a)
  have 4: "(\<forall>r\<in>set (vatom_answers E t w). r = 0) \<longrightarrow>
      (vflag (ev_set E t w) = 0 \<or> vflag (ev_set E t w) = virial_style w) \<and>
      update_vflag_atom (lmp_update (ev_set E t w)) = update_vflag_atom (lmp_update w)"
    by (simp add: v va)
  have 5: "virial_style w = 1 \<or> virial_style w = 2 \<longrightarrow>
      (4 \<le> vflag (ev_set E t w)) = (\<exists>r\<in>set (vatom_answers E t w). r \<noteq> 0)"
    by (auto simp: v)
  from e 1 g v 2 3 4 5 show ?thesis by blast
qed

lemma watched_answers:
  "eatom_answers step5 5 watched = [0, 1]"
  "vatom_answers step5 5 watched = [1]"
  "eatom_answers step5 4 watched = [0, 0]"
  "vatom_answers step5 4 watched = [0]"
  by (simp_all add: eatom_answers_def vatom_answers_def Let_def step5_def mute_def
      ev_set_energy_def split_def matchstep_loop_snd matchstep_loop_fst watched_def idle_def
      call_def)

theorem ev_set_flags_witness:
  "eflag (ev_set step5 5 watched) = 3 \<and> vflag (ev_set step5 5 watched) = 4 \<and>
   eatom_answers step5 5 watched = [0, 1] \<and> vatom_answers step5 5 watched = [1] \<and>
   eatom_answers step5 4 watched = [0, 0] \<and> vatom_answers step5 4 watched = [0] \<and>
   virial_style watched = 2 \<and>
   eflag (ev_set step5 4 watched) = 1 \<and> vflag (ev_set step5 4 watched) = 0 \<and>
   update_eflag_global (lmp_update (ev_set step5 4 watched)) = 5 \<and>
   update_eflag_atom (lmp_update (ev_set step5 4 watched)) = 0 \<and>
   update_vflag_atom (lmp_update (ev_set step5 4 watched)) = 0"
proof -
  have g: "vglobal_answers step5 5 watched = [0]" "vglobal_answers step5 4 watched = [0]"
    by (simp_all add: vglobal_answers_def Let_def step5_def mute_def
      ev_set_energy_def split_def matchstep_loop_snd matchstep_loop_fst watched_def idle_def
      call_def)
  have s: "virial_style watched = 2" "update_ntimestep (lmp_update watched) = 5"
    "update_eflag_atom (lmp_update watched) = 0" "update_vflag_atom (lmp_update watched) = 0"
    by (simp_all add: watched_def idle_def)
  show ?thesis
    using ev_set_flags [of step5 5 watched] ev_set_flags [of step5 4 watched]
    by (simp add: watched_answers g s)
qed

subsection \<open>The calls of the evaluation pipeline\<close>

lemma cont_refl: "continues P w w"
  by (simp add: continues_def)

lemma cont_trans: "continues P w x \<Longrightarrow> continues P x y \<Longrightarrow> continues P w y"
  by (auto simp: continues_def)

lemma cont_mono: "continues P w x \<Longrightarrow> (\<And>e. P e \<Longrightarrow> Q e) \<Longrightarrow> continues Q w x"
  by (auto simp: continues_def list_all_iff)

lemma calls_eq: "calls es w = w\<lparr>trace := trace w @ es\<rparr>"
  by (induction es arbitrary: w) (simp_all add: calls_def call_def)

lemma cont_call: "continues P w x \<Longrightarrow> P e \<Longrightarrow> continues P w (call e x)"
  by (auto simp: continues_def call_def kept_def)

lemma cont_calls: "continues P w x \<Longrightarrow> list_all P es \<Longrightarrow> continues P w (calls es x)"
  by (auto simp: continues_def calls_eq kept_def)

lemma cont_if:
  "continues P w x \<Longrightarrow> continues P w y \<Longrightarrow> continues P w (if c then x else y)"
  by simp

lemma cont_Let:
  "continues P w a \<Longrightarrow> (\<And>x. continues P w x \<Longrightarrow> continues P w (g x)) \<Longrightarrow>
   continues P w (Let a g)"
  by (simp add: Let_def)

lemma cont_same: "continues P w x \<Longrightarrow> trace y = trace x \<Longrightarrow> kept y = kept x \<Longrightarrow> continues P w y"
  by (simp add: continues_def)

lemma background_simps [simp]:
  "background Timer_stamp" "background (Timer_stamp_slot s)" "background Modify_min_pre_exchange"
  "background (Domain_x2lamda n)" "background (Domain_lamda2x n)" "background Domain_pbc"
  "background Domain_reset_box" "background Comm_setup" "background Neighbor_setup_bins"
  "background Comm_exchange" "background Atom_sort" "background Comm_borders"
  "background Neighbor_build" "background Comm_forward_comm" "background Comm_reverse_comm"
  "background Neighbor_decide" "background (Modify_min_pre_force n)"
  "background (Modify_min_post_force n)" "background (Pair_min_xf_get p n)"
  "background (Compute_scalar n)" "background Modify_min_energy"
  "background (Compute_matchstep c n)" "background (Screen_print m)" "background Modify_min_dof"
  "background (Modify_find_compute m)" "background Setup_style" "background Atom_setup"
  by (simp_all add: background_def pipeline_def force_evaluation_def resets_def post_loop_def)

lemma pipeline_simps [simp]:
  "background e \<Longrightarrow> pipeline e"
  "pipeline (Pair_compute a b)" "pipeline (Bond_compute a b)" "pipeline (Angle_compute a b)"
  "pipeline (Dihedral_compute a b)" "pipeline (Improper_compute a b)"
  "pipeline (Kspace_compute a b)"
  by (simp_all add: background_def pipeline_def resets_def post_loop_def)

lemma reneighbor_cont: "continues background w x \<Longrightarrow> continues background w (reneighbor x)"
  unfolding reneighbor_def
  by (intro cont_Let cont_if cont_calls cont_call; (assumption | simp))

lemma bonded_cont: "continues pipeline w x \<Longrightarrow> continues pipeline w (bonded x)"
  unfolding bonded_def
  by (intro cont_Let cont_if cont_calls cont_call; (assumption | simp))

lemma force_contributions_cont:
  "continues pipeline w x \<Longrightarrow> continues pipeline w (force_contributions x)"
  unfolding force_contributions_def
  by (intro cont_Let cont_if cont_calls cont_call bonded_cont; (assumption | simp))

lemma min_xf_get_all_cont:
  "continues background w x \<Longrightarrow> continues background w (min_xf_get_all x)"
  unfolding min_xf_get_all_def
  by (intro cont_if cont_calls; (assumption | simp add: list_all_iff))

lemma matchstep_loop_cont:
  "continues background w x \<Longrightarrow> continues background w (snd (matchstep_loop E t cs flag x))"
  unfolding matchstep_loop_snd calls_eq [symmetric]
  by (rule cont_calls) (simp_all add: list_all_iff)

lemma kept_update_flags:
  "kept (x\<lparr>lmp_update := (lmp_update x)\<lparr>update_eflag_global := a\<rparr>\<rparr>) = kept x"
  "kept (x\<lparr>lmp_update := (lmp_update x)\<lparr>update_eflag_atom := a\<rparr>\<rparr>) = kept x"
  "kept (x\<lparr>lmp_update := (lmp_update x)\<lparr>update_vflag_global := a\<rparr>\<rparr>) = kept x"
  "kept (x\<lparr>lmp_update := (lmp_update x)\<lparr>update_vflag_atom := a\<rparr>\<rparr>) = kept x"
  "kept (x\<lparr>eflag := a\<rparr>) = kept x"
  "kept (x\<lparr>vflag := a\<rparr>) = kept x"
  "kept (x\<lparr>ecurrent := b\<rparr>) = kept x"
  "kept (x\<lparr>fextra := c\<rparr>) = kept x"
  "kept (x\<lparr>lmp_atom := (lmp_atom x)\<lparr>atom_f := d\<rparr>\<rparr>) = kept x"
  "kept (x\<lparr>lmp_atom := (lmp_atom x)\<lparr>atom_torque := d\<rparr>\<rparr>) = kept x"
  "kept (x\<lparr>lmp_atom := (lmp_atom x)\<lparr>atom_erforce := d'\<rparr>\<rparr>) = kept x"
  "kept (x\<lparr>pe_compute := a\<rparr>) = kept x"
  "kept (x\<lparr>ndoftotal := a\<rparr>) = kept x"
  "kept (x\<lparr>lmp_neighbor := g\<rparr>) = kept x"
  by (simp_all add: kept_def)

lemma cont_upd:
  "continues P w x \<Longrightarrow> continues P w (x\<lparr>lmp_update := (lmp_update x)\<lparr>update_eflag_global := a\<rparr>\<rparr>)"
  "continues P w x \<Longrightarrow> continues P w (x\<lparr>lmp_update := (lmp_update x)\<lparr>update_eflag_atom := a\<rparr>\<rparr>)"
  "continues P w x \<Longrightarrow> continues P w (x\<lparr>lmp_update := (lmp_update x)\<lparr>update_vflag_global := a\<rparr>\<rparr>)"
  "continues P w x \<Longrightarrow> continues P w (x\<lparr>lmp_update := (lmp_update x)\<lparr>update_vflag_atom := a\<rparr>\<rparr>)"
  "continues P w x \<Longrightarrow> continues P w (x\<lparr>eflag := a\<rparr>)"
  "continues P w x \<Longrightarrow> continues P w (x\<lparr>vflag := a\<rparr>)"
  "continues P w x \<Longrightarrow> continues P w (x\<lparr>ecurrent := b\<rparr>)"
  "continues P w x \<Longrightarrow> continues P w (x\<lparr>fextra := c\<rparr>)"
  "continues P w x \<Longrightarrow> continues P w (x\<lparr>lmp_atom := (lmp_atom x)\<lparr>atom_f := d\<rparr>\<rparr>)"
  "continues P w x \<Longrightarrow> continues P w (x\<lparr>lmp_atom := (lmp_atom x)\<lparr>atom_torque := d\<rparr>\<rparr>)"
  "continues P w x \<Longrightarrow> continues P w (x\<lparr>lmp_atom := (lmp_atom x)\<lparr>atom_erforce := d'\<rparr>\<rparr>)"
  "continues P w x \<Longrightarrow> continues P w (x\<lparr>pe_compute := a\<rparr>)"
  "continues P w x \<Longrightarrow> continues P w (x\<lparr>ndoftotal := a\<rparr>)"
  "continues P w x \<Longrightarrow> continues P w (x\<lparr>lmp_neighbor := g\<rparr>)"
  by (erule cont_same, simp, simp add: kept_update_flags)+

lemma cont_Let_int:
  "(\<And>v. continues P w (g v)) \<Longrightarrow> continues P w (Let (a::int) g)"
  by (simp add: Let_def)

lemma cont_Let_pair:
  "continues P w (g (fst p) (snd p)) \<Longrightarrow> continues P w (Let (p :: 'b \<times> lammps) (case_prod g))"
  by (simp add: split_def)

lemma ev_set_energy_cont:
  "continues background w x \<Longrightarrow> continues background w (ev_set_energy E t x)"
  unfolding ev_set_energy_def
  by (intro cont_Let cont_Let_int cont_Let_pair cont_if cont_upd matchstep_loop_cont; assumption)

lemma ev_set_virial_cont:
  "continues background w x \<Longrightarrow> continues background w (ev_set_virial E t x)"
  unfolding ev_set_virial_def
  by (intro cont_Let cont_Let_int cont_Let_pair cont_if cont_upd matchstep_loop_cont; assumption)

lemma ev_set_cont:
  "continues background w x \<Longrightarrow> continues background w (ev_set E t x)"
  unfolding ev_set_def by (intro ev_set_virial_cont ev_set_energy_cont)

lemma force_clear_cont: "continues P w x \<Longrightarrow> continues P w (force_clear x)"
  unfolding force_clear_def
  by (intro cont_Let cont_Let_int cont_if cont_upd; assumption)


lemma potential_energy_snd:
  "snd (potential_energy E x) =
     (if nextra_global x \<noteq> 0
      then call Modify_min_energy
             ((call (Compute_scalar (pe_compute x)) x)
                \<lparr>fextra := map (snd (modify_min_energy E (call (Compute_scalar (pe_compute x)) x)))
                             [0..<length (fextra x)]\<rparr>)
      else call (Compute_scalar (pe_compute x)) x)"
  by (simp add: potential_energy_def Let_def split_def call_def)

lemma potential_energy_cont:
  "continues background w x \<Longrightarrow> continues background w (snd (potential_energy E x))"
  unfolding potential_energy_snd
  by (intro cont_if cont_call cont_upd; (assumption | simp))

lemma background_pipeline: "continues background w x \<Longrightarrow> continues pipeline w x"
  by (erule cont_mono) simp

lemma pipeline_step:
  assumes "\<And>w x. continues background w x \<Longrightarrow> continues background w (f x)"
  shows "continues pipeline w x \<Longrightarrow> continues pipeline w (f x)"
proof -
  assume a: "continues pipeline w x"
  have "continues background x (f x)" by (rule assms) (rule cont_refl)
  then have "continues pipeline x (f x)" by (rule background_pipeline)
  with a show ?thesis by (rule cont_trans)
qed

lemma compute_forces_cont:
  "continues pipeline w x \<Longrightarrow> continues pipeline w (compute_forces E nflag x)"
  unfolding compute_forces_def
  by (intro cont_Let cont_if cont_calls force_contributions_cont force_clear_cont
        pipeline_step [of reneighbor, OF reneighbor_cont]
        pipeline_step [of "ev_set E t" for t, OF ev_set_cont]
        pipeline_step [of min_xf_get_all, OF min_xf_get_all_cont];
      (assumption | simp))

lemma evaluate_cont:
  "continues pipeline w x \<Longrightarrow> continues pipeline w (snd (evaluate E nflag x))"
  unfolding evaluate_def
  by (intro compute_forces_cont
        pipeline_step [of "\<lambda>x. snd (potential_energy E x)", OF potential_energy_cont])

lemma energy_force_trace:
  "\<exists>es. trace (snd (energy_force E r w)) =
           trace w @ Min_energy_force r # es @
           rebuild_tail (neighbor_decide E (call (Min_energy_force r) w)) r \<and>
        list_all pipeline es \<and>
        kept (snd (energy_force E r w)) = kept w"
proof -
  let ?w0 = "call (Min_energy_force r) w"
  let ?nflag = "neighbor_decide E ?w0"
  let ?w7 = "snd (evaluate E ?nflag (call Neighbor_decide ?w0))"
  have "continues pipeline ?w0 ?w7"
    by (intro evaluate_cont cont_call cont_refl) simp
  then obtain es where es: "trace ?w7 = trace ?w0 @ es" "list_all pipeline es" "kept ?w7 = kept ?w0"
    by (auto simp: continues_def)
  have k0: "kept ?w0 = kept w" "trace ?w0 = trace w @ [Min_energy_force r]"
    by (simp_all add: kept_def call_def)
  have s: "snd (energy_force E r w) =
           (if ?nflag \<noteq> 0
            then call Reset_vectors (if r \<noteq> 0 then call Fix_minimize_reset_coords ?w7 else ?w7)
            else ?w7)"
    by (simp add: energy_force_def Let_def split_def)
  have t: "trace (snd (energy_force E r w)) = trace ?w7 @ rebuild_tail ?nflag r"
    by (simp add: s rebuild_tail_def call_def)
  have k: "kept (snd (energy_force E r w)) = kept ?w7"
    by (simp add: s kept_def call_def)
  show ?thesis
    using es k0 t k by (intro exI [of _ es]) simp
qed


text \<open>
  Claim C10. Among the calls of one \<^verbatim>\<open>energy_force\<close>, \<^verbatim>\<open>reset_vectors\<close> occurs exactly when
  \<^verbatim>\<open>neighbor->decide\<close> asked for a rebuild, whatever \<^verbatim>\<open>resetflag\<close> is, and
  \<^verbatim>\<open>fix_minimize->reset_coords\<close> occurs exactly when, in addition, \<^verbatim>\<open>resetflag\<close> is set.
  Without a rebuild neither is called.
\<close>

theorem energy_force_rebuild_resets:
  "\<exists>es. trace (snd (energy_force E resetflag w)) = trace w @ es \<and>
        (Reset_vectors \<in> set es) =
          (neighbor_decide E (call (Min_energy_force resetflag) w) \<noteq> 0) \<and>
        (Fix_minimize_reset_coords \<in> set es) =
          (neighbor_decide E (call (Min_energy_force resetflag) w) \<noteq> 0 \<and> resetflag \<noteq> 0)"
proof -
  obtain es where es:
    "trace (snd (energy_force E resetflag w)) =
       trace w @ Min_energy_force resetflag # es @
       rebuild_tail (neighbor_decide E (call (Min_energy_force resetflag) w)) resetflag"
    "list_all pipeline es"
    using energy_force_trace [of E resetflag w] by blast
  have n: "Reset_vectors \<notin> set es" "Fix_minimize_reset_coords \<notin> set es"
    using es(2) by (auto simp: list_all_iff pipeline_def resets_def)
  show ?thesis
    using es(1) n
    by (intro exI [of _ "Min_energy_force resetflag # es @
          rebuild_tail (neighbor_decide E (call (Min_energy_force resetflag) w)) resetflag"])
       (simp add: rebuild_tail_def)
qed

theorem energy_force_rebuild_resets_witness:
  "neighbor_decide rebuilds (call (Min_energy_force 1) idle) \<noteq> 0 \<and>
   Reset_vectors \<in> set (trace (snd (energy_force rebuilds 1 idle))) \<and>
   Fix_minimize_reset_coords \<in> set (trace (snd (energy_force rebuilds 1 idle))) \<and>
   Reset_vectors \<in> set (trace (snd (energy_force rebuilds 0 idle))) \<and>
   Fix_minimize_reset_coords \<notin> set (trace (snd (energy_force rebuilds 0 idle))) \<and>
   neighbor_decide mute (call (Min_energy_force 1) idle) = 0 \<and>
   Reset_vectors \<notin> set (trace (snd (energy_force mute 1 idle))) \<and>
   Fix_minimize_reset_coords \<notin> set (trace (snd (energy_force mute 1 idle)))"
proof -
  have t: "trace idle = []" by (simp add: idle_def)
  have d: "neighbor_decide rebuilds x = 1" "neighbor_decide mute x = 0" for x
    by (simp_all add: rebuilds_def mute_def)
  show ?thesis
    using energy_force_rebuild_resets [of rebuilds 1 idle]
      energy_force_rebuild_resets [of rebuilds 0 idle]
      energy_force_rebuild_resets [of mute 1 idle]
    by (auto simp: t d)
qed

subsection \<open>Setup with extra degrees of freedom\<close>

lemma setup_dof_facts:
  "\<exists>es. trace (setup_dof E w) = trace w @ es \<and> list_all background es"
  "searchflag (setup_dof E w) = searchflag w"
  "nextra_atom (setup_dof E w) = nextra_atom w"
  by (cases "comm_me (lmp_comm w) = 0 \<and> screen w";
      simp add: setup_dof_def Let_def call_def)+

lemma setup_ndoftotal_cont:
  "continues background w x \<Longrightarrow> continues background w (setup_ndoftotal E x)"
  unfolding setup_ndoftotal_def
  by (intro cont_Let cont_Let_int cont_upd; assumption)

lemma setup_neighbor_cont:
  "continues background w x \<Longrightarrow> continues background w (setup_neighbor x)"
  unfolding setup_neighbor_def
  by (intro cont_Let cont_if cont_calls cont_call cont_upd; (assumption | simp))

text \<open>
  Claim C5. If the search flag of the minimizer is 0 and there is an extra degree of
  freedom (\<^verbatim>\<open>modify->min_dof\<close> reports a nonzero global count, or a per-atom slot is
  registered), \<^verbatim>\<open>setup\<close> ends in \<^verbatim>\<open>error->all\<close>, and none of the calls it has made by then
  is a computation of a force-field contributor.
\<close>

theorem setup_rejects_extra_dof:
  assumes "searchflag w = 0"
    and "nextra_global (setup_dof E w) \<noteq> 0 \<or> nextra_atom w \<noteq> 0"
  shows "\<exists>msg w' es. Min_setup E w = Inl (msg, w') \<and>
           trace w' = trace w @ es \<and> list_all (\<lambda>e. \<not> force_evaluation e) es \<and>
           msg =
             (if modify_find_compute E ''thermo_pe'' (setup_dof E w) < 0
              then ''Minimization could not find thermo_pe compute''
              else if nextra_global (setup_dof E w) \<noteq> 0
              then ''Cannot use a damped dynamics min style with fix box/relax''
              else ''Cannot use a damped dynamics min style with per-atom DOF'')"
proof -
  let ?w1 = "setup_dof E w"
  let ?cid = "modify_find_compute E ''thermo_pe'' ?w1"
  let ?w2 = "call (Modify_find_compute ''thermo_pe'') ?w1"
  let ?w3 = "setup_neighbor (setup_ndoftotal E (call Setup_style (?w2\<lparr>pe_compute := ?cid\<rparr>)))"
  obtain es1 where es1: "trace ?w1 = trace w @ es1" "list_all background es1"
    using setup_dof_facts(1) [of E w] by blast
  have t2: "trace ?w2 = trace w @ es1 @ [Modify_find_compute ''thermo_pe'']"
    by (simp add: call_def es1)
  have nf: "list_all (\<lambda>e. \<not> force_evaluation e) es" if "list_all background es" for es
    using that by (simp add: list_all_iff background_def)
  show ?thesis
  proof (cases "?cid < 0")
    case True
    then have "Min_setup E w = Inl (''Minimization could not find thermo_pe compute'', ?w2)"
      by (simp add: Min_setup_def Let_def)
    moreover have "list_all (\<lambda>e. \<not> force_evaluation e) (es1 @ [Modify_find_compute ''thermo_pe''])"
      using es1(2) by (intro nf) simp
    ultimately show ?thesis using True t2 by auto
  next
    case False
    have "continues background ?w2 ?w3"
      by (intro setup_neighbor_cont setup_ndoftotal_cont cont_call cont_upd cont_refl) simp
    then obtain es2 where es2: "trace ?w3 = trace ?w2 @ es2" "list_all background es2"
      "kept ?w3 = kept ?w2"
      by (auto simp: continues_def)
    have k: "searchflag ?w3 = 0" "nextra_atom ?w3 = nextra_atom w"
      "nextra_global ?w3 = nextra_global ?w1"
      using es2(3) assms(1) by (simp_all add: kept_def call_def setup_dof_facts)
    have m: "Min_setup E w =
               Inl (if nextra_global ?w1 \<noteq> 0
                    then ''Cannot use a damped dynamics min style with fix box/relax''
                    else ''Cannot use a damped dynamics min style with per-atom DOF'', ?w3)"
      using False assms(2) k by (simp add: Min_setup_def Let_def)
    have "list_all (\<lambda>e. \<not> force_evaluation e) (es1 @ [Modify_find_compute ''thermo_pe''] @ es2)"
      using es1(2) es2(2) by (intro nf) simp
    moreover have "trace ?w3 = trace w @ es1 @ [Modify_find_compute ''thermo_pe''] @ es2"
      by (simp add: es2(1) t2)
    ultimately show ?thesis using False m by auto
  qed
qed

theorem setup_rejects_extra_dof_witness:
  "searchflag idle = 0 \<and> nextra_global (setup_dof boxrelax idle) \<noteq> 0 \<and>
   (\<exists>w' es. Min_setup boxrelax idle =
              Inl (''Cannot use a damped dynamics min style with fix box/relax'', w') \<and>
            trace w' = trace idle @ es \<and> list_all (\<lambda>e. \<not> force_evaluation e) es) \<and>
   searchflag one_slot = 0 \<and> nextra_atom one_slot \<noteq> 0 \<and>
   (\<exists>w' es. Min_setup mute one_slot =
              Inl (''Cannot use a damped dynamics min style with per-atom DOF'', w') \<and>
            trace w' = trace one_slot @ es \<and> list_all (\<lambda>e. \<not> force_evaluation e) es)"
proof -
  have a: "searchflag idle = 0" "nextra_global (setup_dof boxrelax idle) = 1"
    "modify_find_compute boxrelax ''thermo_pe'' x = 0" for x
    by (simp_all add: setup_dof_def Let_def call_def idle_def boxrelax_def mute_def)
  have b: "searchflag one_slot = 0" "nextra_atom one_slot = 1"
    "nextra_global (setup_dof mute one_slot) = 0"
    "modify_find_compute mute ''thermo_pe'' x = 0" for x
    by (simp_all add: setup_dof_def Let_def call_def one_slot_eq idle_def mute_def)
  show ?thesis
    using setup_rejects_extra_dof [of idle boxrelax] setup_rejects_extra_dof [of one_slot mute]
    by (simp add: a b) blast
qed

subsection \<open>After the loop\<close>

lemma force_output_now_fields:
  "trace (force_output_now x) = trace x"
  "lmp_update (force_output_now x) = lmp_update x"
  "searchflag (force_output_now x) = searchflag x"
  "nextra_atom (force_output_now x) = nextra_atom x"
  "nextra_global (force_output_now x) = nextra_global x"
  "lmp_output (force_output_now x) =
     (if update_restrict_output (lmp_update x) = 0
      then (lmp_output x)
             \<lparr>output_next_dump :=
                (\<lambda>i. if i < nat (output_ndump (lmp_output x)) then update_ntimestep (lmp_update x)
                      else output_next_dump (lmp_output x) i),
              output_next_dump_any := update_ntimestep (lmp_update x),
              output_next_restart :=
                (if output_restart_every (lmp_output x) \<noteq> 0 then update_ntimestep (lmp_update x)
                 else output_next_restart (lmp_output x)),
              output_next_thermo := update_ntimestep (lmp_update x)\<rparr>
      else (lmp_output x)\<lparr>output_next_thermo := update_ntimestep (lmp_update x)\<rparr>)"
  by (cases "update_restrict_output (lmp_update x) = 0";
      cases "output_restart_every (lmp_output x) = 0";
      simp add: force_output_now_def Let_def fold_clear)+

lemma call_fields:
  "trace (call e x) = trace x @ [e]"
  "lmp_output (call e x) = lmp_output x"
  "lmp_update (call e x) = lmp_update x"
  "kept (call e x) = kept x"
  "lmp_output (x\<lparr>ecurrent := a\<rparr>) = lmp_output x"
  "trace (x\<lparr>ecurrent := a\<rparr>) = trace x"
  by (simp_all add: call_def kept_def)

lemma run_budget:
  assumes "min_iterate E n w = (0, w1)"
  shows "run E n w = w1\<lparr>stop_condition := 0, stopstr := Some ''max iterations''\<rparr>"
  using assms by (simp add: run_def Let_def stopstrings_def)

lemma run_stopped:
  assumes "min_iterate E n w = (code, w1)" "code \<noteq> 0"
  shows "\<exists>es x. trace (run E n w) =
             trace w1 @
             [Modify_addstep_compute_all (update_ntimestep (lmp_update w1)), Min_energy_force 0] @
             es @ rebuild_tail (neighbor_decide E x) 0 @
             [Output_write (update_ntimestep (lmp_update w1))] \<and>
           list_all pipeline es"
    and "lmp_output (run E n w) =
           lmp_output (force_output_now
             (w1\<lparr>stop_condition := code, stopstr := stopstrings code,
                 lmp_update := (lmp_update w1)\<lparr>update_nsteps := niter w1\<rparr>\<rparr>))"
proof -
  let ?t = "update_ntimestep (lmp_update w1)"
  let ?w2 = "w1\<lparr>stop_condition := code, stopstr := stopstrings code,
                 lmp_update := (lmp_update w1)\<lparr>update_nsteps := niter w1\<rparr>\<rparr>"
  let ?w3 = "force_output_now ?w2"
  let ?w4 = "call (Modify_addstep_compute_all ?t) ?w3"
  let ?w5 = "snd (energy_force E 0 ?w4)"
  have t3: "update_ntimestep (lmp_update ?w3) = ?t"
    by (simp add: force_output_now_fields)
  obtain es where es:
    "trace ?w5 = trace ?w4 @ Min_energy_force 0 # es @
       rebuild_tail (neighbor_decide E (call (Min_energy_force 0) ?w4)) 0"
    "list_all pipeline es" "kept ?w5 = kept ?w4"
    using energy_force_trace [of E 0 ?w4] by blast
  have k4: "kept ?w4 = kept ?w3" "trace ?w4 = trace w1 @ [Modify_addstep_compute_all ?t]"
    by (simp_all add: call_fields force_output_now_fields)
  have t5: "update_ntimestep (lmp_update ?w5) = ?t" "lmp_output ?w5 = lmp_output ?w3"
    using es(3) k4(1) t3 by (simp_all add: kept_def)
  have r: "run E n w =
             call (Output_write (update_ntimestep (lmp_update ?w5)))
               (?w5\<lparr>ecurrent := fst (energy_force E 0 ?w4)\<rparr>)"
    using assms by (simp add: run_def Let_def split_def t3)
  show "lmp_output (run E n w) = lmp_output ?w3"
    by (simp only: r call_fields t5)
  have "trace (run E n w) = trace ?w5 @ [Output_write ?t]"
    by (simp only: r call_fields t5)
  then have "trace (run E n w) =
             trace w1 @ [Modify_addstep_compute_all ?t, Min_energy_force 0] @
             es @ rebuild_tail (neighbor_decide E (call (Min_energy_force 0) ?w4)) 0 @
             [Output_write ?t]"
    by (simp add: es(1) k4(2))
  with es(2) show "\<exists>es x. trace (run E n w) =
             trace w1 @ [Modify_addstep_compute_all ?t, Min_energy_force 0] @
             es @ rebuild_tail (neighbor_decide E x) 0 @ [Output_write ?t] \<and>
           list_all pipeline es"
    by blast
qed


lemma pipeline_not_post_loop:
  "list_all pipeline es \<Longrightarrow> list_all (\<lambda>e. \<not> post_loop e) (es @ rebuild_tail nflag r)"
  by (auto simp: list_all_iff pipeline_def rebuild_tail_def post_loop_def)

text \<open>
  Claim C3 as stated fails. With stop code 3 and \<^verbatim>\<open>update->restrict_output\<close> set, the next
  due step of the dump stays at 100 while the current step is 7; and the evaluation \<^verbatim>\<open>run\<close>
  asks for is \<^verbatim>\<open>energy_force(0)\<close>, not \<^verbatim>\<open>energy_force(1)\<close>: although the neighbor list is
  rebuilt, the reference positions are not reset.
\<close>

theorem run_post_loop_counterexample:
  "min_iterate stops 10 restricted = (3, restricted) \<and>
   update_ntimestep (lmp_update restricted) = 7 \<and>
   int 0 < output_ndump (lmp_output restricted) \<and>
   output_next_dump (lmp_output (run stops 10 restricted)) 0 = 100 \<and>
   Min_energy_force 0 \<in> set (trace (run stops 10 restricted)) \<and>
   Min_energy_force 1 \<notin> set (trace (run stops 10 restricted)) \<and>
   Reset_vectors \<in> set (trace (run stops 10 restricted)) \<and>
   Fix_minimize_reset_coords \<notin> set (trace (run stops 10 restricted))"
proof -
  have i: "min_iterate stops 10 restricted = (3, restricted)"
    by (simp add: stops_def rebuilds_def mute_def)
  have d: "neighbor_decide stops x = 1" for x
    by (simp add: stops_def rebuilds_def mute_def)
  have f: "update_ntimestep (lmp_update restricted) = 7" "trace restricted = []"
    "output_ndump (lmp_output restricted) = 1"
    "update_restrict_output (lmp_update restricted) = 1"
    "output_next_dump (lmp_output restricted) = (\<lambda>_. 100)"
    by (simp_all add: restricted_def dumping_def idle_def)
  obtain es where es:
    "trace (run stops 10 restricted) =
       [Modify_addstep_compute_all 7, Min_energy_force 0] @ es @ rebuild_tail 1 0 @ [Output_write 7]"
    "list_all pipeline es"
    using run_stopped(1) [OF i] by (auto simp: d f)
  have n: "Min_energy_force 1 \<notin> set es" "Fix_minimize_reset_coords \<notin> set es"
    using es(2) by (auto simp: list_all_iff pipeline_def post_loop_def resets_def)
  have o: "output_next_dump (lmp_output (run stops 10 restricted)) 0 = 100"
    by (simp add: run_stopped(2) [OF i] force_output_now_fields f)
  show ?thesis
    using i f o n by (simp add: es(1) rebuild_tail_def)
qed

text \<open>
  Claim C3, amended. When \<^verbatim>\<open>iterate\<close> returns the code 0, \<^verbatim>\<open>run\<close> only records the code
  and its string. When it returns another code, \<^verbatim>\<open>run\<close> sets \<^verbatim>\<open>output->next_thermo\<close> to
  the current step and, only if \<^verbatim>\<open>update->restrict_output\<close> is 0, the next due step of
  every dump, \<^verbatim>\<open>next_dump_any\<close>, and (if \<^verbatim>\<open>restart_every\<close> is nonzero) \<^verbatim>\<open>next_restart\<close>;
  then it calls \<^verbatim>\<open>modify->addstep_compute_all\<close>, one \<^verbatim>\<open>energy_force\<close> with \<^verbatim>\<open>resetflag\<close> 0,
  and \<^verbatim>\<open>output->write\<close>, in this order, and no other of these calls.
\<close>

theorem run_post_loop:
  assumes "min_iterate E n w = (code, w1)"
  shows "(code = 0 \<longrightarrow> run E n w = w1\<lparr>stop_condition := 0, stopstr := Some ''max iterations''\<rparr>) \<and>
         (code \<noteq> 0 \<longrightarrow>
            (\<exists>es. trace (run E n w) =
                    trace w1 @
                    [Modify_addstep_compute_all (update_ntimestep (lmp_update w1)),
                     Min_energy_force 0] @ es @
                    [Output_write (update_ntimestep (lmp_update w1))] \<and>
                  list_all (\<lambda>e. \<not> post_loop e) es) \<and>
            output_next_thermo (lmp_output (run E n w)) = update_ntimestep (lmp_update w1) \<and>
            (update_restrict_output (lmp_update w1) = 0 \<longrightarrow>
               (\<forall>i. int i < output_ndump (lmp_output w1) \<longrightarrow>
                    output_next_dump (lmp_output (run E n w)) i = update_ntimestep (lmp_update w1)) \<and>
               output_next_dump_any (lmp_output (run E n w)) = update_ntimestep (lmp_update w1) \<and>
               (output_restart_every (lmp_output w1) \<noteq> 0 \<longrightarrow>
                  output_next_restart (lmp_output (run E n w)) = update_ntimestep (lmp_update w1))) \<and>
            (update_restrict_output (lmp_update w1) \<noteq> 0 \<longrightarrow>
               output_next_dump (lmp_output (run E n w)) = output_next_dump (lmp_output w1) \<and>
               output_next_dump_any (lmp_output (run E n w)) = output_next_dump_any (lmp_output w1) \<and>
               output_next_restart (lmp_output (run E n w)) = output_next_restart (lmp_output w1)))"
proof (intro conjI impI)
  assume "code = 0"
  with assms show "run E n w = w1\<lparr>stop_condition := 0, stopstr := Some ''max iterations''\<rparr>"
    by (simp add: run_budget)
next
  assume c: "code \<noteq> 0"
  from run_stopped(1) [OF assms c] obtain es x where es:
    "trace (run E n w) =
       trace w1 @
       [Modify_addstep_compute_all (update_ntimestep (lmp_update w1)), Min_energy_force 0] @
       es @ rebuild_tail (neighbor_decide E x) 0 @
       [Output_write (update_ntimestep (lmp_update w1))]"
    "list_all pipeline es"
    by blast
  have "list_all (\<lambda>e. \<not> post_loop e) (es @ rebuild_tail (neighbor_decide E x) 0)"
    using es(2) by (rule pipeline_not_post_loop)
  with es(1) show "\<exists>es. trace (run E n w) =
                    trace w1 @
                    [Modify_addstep_compute_all (update_ntimestep (lmp_update w1)),
                     Min_energy_force 0] @ es @
                    [Output_write (update_ntimestep (lmp_update w1))] \<and>
                  list_all (\<lambda>e. \<not> post_loop e) es"
    by (intro exI [of _ "es @ rebuild_tail (neighbor_decide E x) 0"]) simp
  note o = run_stopped(2) [OF assms c]
  show "output_next_thermo (lmp_output (run E n w)) = update_ntimestep (lmp_update w1)"
    by (simp add: o force_output_now_fields)
  {
    assume r: "update_restrict_output (lmp_update w1) = 0"
    show "\<forall>i. int i < output_ndump (lmp_output w1) \<longrightarrow>
              output_next_dump (lmp_output (run E n w)) i = update_ntimestep (lmp_update w1)"
      using r by (simp add: o force_output_now_fields zless_nat_eq_int_zless)
    show "output_next_dump_any (lmp_output (run E n w)) = update_ntimestep (lmp_update w1)"
      using r by (simp add: o force_output_now_fields)
    assume "output_restart_every (lmp_output w1) \<noteq> 0"
    then show "output_next_restart (lmp_output (run E n w)) = update_ntimestep (lmp_update w1)"
      using r by (simp add: o force_output_now_fields)
  }
  {
    assume r: "update_restrict_output (lmp_update w1) \<noteq> 0"
    show "output_next_dump (lmp_output (run E n w)) = output_next_dump (lmp_output w1)"
      "output_next_dump_any (lmp_output (run E n w)) = output_next_dump_any (lmp_output w1)"
      "output_next_restart (lmp_output (run E n w)) = output_next_restart (lmp_output w1)"
      using r by (simp_all add: o force_output_now_fields)
  }
qed

theorem run_post_loop_witness:
  "min_iterate mute 10 dumping = (0, dumping) \<and>
   run mute 10 dumping = dumping\<lparr>stop_condition := 0, stopstr := Some ''max iterations''\<rparr> \<and>
   min_iterate stops 10 dumping = (3, dumping) \<and> (3::int) \<noteq> 0 \<and>
   update_restrict_output (lmp_update dumping) = 0 \<and>
   int 0 < output_ndump (lmp_output dumping) \<and>
   output_restart_every (lmp_output dumping) \<noteq> 0 \<and>
   output_next_thermo (lmp_output (run stops 10 dumping)) = 7 \<and>
   output_next_dump (lmp_output (run stops 10 dumping)) 0 = 7 \<and>
   output_next_dump_any (lmp_output (run stops 10 dumping)) = 7 \<and>
   output_next_restart (lmp_output (run stops 10 dumping)) = 7 \<and>
   min_iterate stops 10 restricted = (3, restricted) \<and>
   update_restrict_output (lmp_update restricted) \<noteq> 0 \<and>
   output_next_thermo (lmp_output (run stops 10 restricted)) = 7 \<and>
   output_next_dump_any (lmp_output (run stops 10 restricted)) = 100 \<and>
   output_next_restart (lmp_output (run stops 10 restricted)) = 100"
proof -
  have i: "min_iterate mute 10 dumping = (0, dumping)"
    "min_iterate stops 10 dumping = (3, dumping)"
    "min_iterate stops 10 restricted = (3, restricted)"
    by (simp_all add: stops_def rebuilds_def mute_def)
  have f: "update_ntimestep (lmp_update dumping) = 7"
    "output_ndump (lmp_output dumping) = 1"
    "update_restrict_output (lmp_update dumping) = 0"
    "output_restart_every (lmp_output dumping) = 50"
    "update_ntimestep (lmp_update restricted) = 7"
    "update_restrict_output (lmp_update restricted) = 1"
    "output_next_dump_any (lmp_output restricted) = 100"
    "output_next_restart (lmp_output restricted) = 100"
    by (simp_all add: restricted_def dumping_def idle_def)
  show ?thesis
    using run_post_loop [OF i(1)] run_post_loop [OF i(2)] run_post_loop [OF i(3)]
    by (simp add: i f)
qed

subsection \<open>Repeating an evaluation\<close>

lemma potential_energy_fst:
  "fst (potential_energy E x) =
     (let e = compute_scalar E (pe_compute x) x +
              (if nextra_global x \<noteq> 0
               then fst (modify_min_energy E (call (Compute_scalar (pe_compute x)) x)) else 0)
      in if thermo_normflag (lmp_output x) \<noteq> 0
         then e / real_of_int (atom_natoms (lmp_atom x)) else e)"
  by (simp add: potential_energy_def Let_def split_def call_def)

lemma energy_force_fst:
  "fst (energy_force E r w) =
     (let e = fst (energy_answers E r w) + snd (energy_answers E r w)
      in if thermo_normflag (lmp_output w) \<noteq> 0
         then e / real_of_int (atom_natoms (lmp_atom w)) else e)"
proof -
  let ?w0 = "call (Min_energy_force r) w"
  let ?x = "compute_forces E (neighbor_decide E ?w0) (call Neighbor_decide ?w0)"
  have "continues pipeline ?w0 ?x"
    by (intro compute_forces_cont cont_call cont_refl) simp
  then have "kept ?x = kept ?w0"
    by (simp add: continues_def)
  then have k: "thermo_normflag (lmp_output ?x) = thermo_normflag (lmp_output w)"
    "atom_natoms (lmp_atom ?x) = atom_natoms (lmp_atom w)"
    by (simp_all add: kept_def call_def)
  have "fst (energy_force E r w) = fst (potential_energy E ?x)"
    by (simp add: energy_force_def evaluate_def Let_def split_def)
  then show ?thesis
    by (simp only: potential_energy_fst k energy_answers_def Let_def fst_conv snd_conv)
qed

lemma energy_force_kept: "kept (snd (energy_force E r w)) = kept w"
  using energy_force_trace [of E r w] by blast

text \<open>
  Claim C9. The energy \<^verbatim>\<open>energy_force\<close> returns is made of the answers of
  \<^verbatim>\<open>pe_compute->compute_scalar\<close> and \<^verbatim>\<open>modify->min_energy\<close>, of \<^verbatim>\<open>thermo->normflag\<close> and of
  \<^verbatim>\<open>atom->natoms\<close>, and \<^verbatim>\<open>energy_force\<close> changes neither of the latter two. So when the
  collaborators, their state being the same, answer the second of two consecutive calls
  \<^verbatim>\<open>energy_force(0)\<close> as they answered the first, the second call returns the energy of
  the first, whether or not a rebuild is due.
\<close>

theorem energy_force_repeatable:
  assumes "energy_answers E 0 (snd (energy_force E 0 w)) = energy_answers E 0 w"
  shows "fst (energy_force E 0 (snd (energy_force E 0 w))) = fst (energy_force E 0 w)"
proof -
  have "thermo_normflag (lmp_output (snd (energy_force E 0 w))) = thermo_normflag (lmp_output w)"
    "atom_natoms (lmp_atom (snd (energy_force E 0 w))) = atom_natoms (lmp_atom w)"
    using energy_force_kept [of E 0 w] by (simp_all add: kept_def)
  then show ?thesis
    by (simp only: energy_force_fst assms)
qed

theorem energy_force_repeatable_witness:
  "energy_answers calm 0 (snd (energy_force calm 0 normalised)) = energy_answers calm 0 normalised \<and>
   energy_answers calm 0 normalised = (5, 0) \<and>
   fst (energy_force calm 0 normalised) = 5 / 2 \<and>
   fst (energy_force calm 0 (snd (energy_force calm 0 normalised))) = 5 / 2"
proof -
  have k: "nextra_global (compute_forces calm n x) = nextra_global x" for n x
  proof -
    have "continues pipeline x (compute_forces calm n x)"
      by (intro compute_forces_cont cont_refl)
    then show ?thesis by (simp add: continues_def kept_def)
  qed
  have g: "nextra_global (snd (energy_force calm 0 normalised)) = nextra_global normalised"
    using energy_force_kept [of calm 0 normalised] by (simp add: kept_def)
  have n: "nextra_global normalised = 0" "thermo_normflag (lmp_output normalised) = 1"
    "atom_natoms (lmp_atom normalised) = 2"
    by (simp_all add: normalised_def idle_def)
  have a: "energy_answers calm 0 x = (5, 0)" if "nextra_global x = 0" for x
    using that by (simp add: energy_answers_def Let_def k call_def calm_def mute_def)
  have a1: "energy_answers calm 0 normalised = (5, 0)"
    by (rule a) (rule n)
  have a2: "energy_answers calm 0 (snd (energy_force calm 0 normalised)) = (5, 0)"
    by (rule a) (simp add: g n)
  have e: "fst (energy_force calm 0 normalised) = 5 / 2"
    by (simp add: energy_force_fst a1 n)
  show ?thesis
    using energy_force_repeatable [of calm normalised] a1 a2 e by simp
qed

end
